theory Spec2Isabelle
  imports Main
begin

section \<open>SEA-Builder: the build pipeline of src/index.js\<close>

text \<open>
  The program bundles a Node.js project, optionally obfuscates the bundle, generates the
  SEA preparation blob with a child process, copies the running Node.js executable,
  optionally sets its icon and injects the blob. It is modelled by explicit state passing:
  every function of the source becomes a function on a \<open>world\<close> (the files of the working
  directory, the calls made so far, the log) that returns either the thrown error or the
  result, together with the world as the call left it.
\<close>

subsection \<open>Errors, log entries, numbers as text\<close>

type_synonym path = string
type_synonym content = string

text \<open>A JavaScript \<open>Error\<close>; the program only ever reads its \<open>message\<close>.\<close>

datatype error = Error string

fun message :: "error \<Rightarrow> string" where
  "message (Error m) = m"

datatype level = ConsoleLog | ConsoleError | LogInfo | LogWarn | LogError

text \<open>A number as JavaScript prints it in a template literal, in decimal.\<close>

definition digit_char :: "nat \<Rightarrow> char" where
  "digit_char d = char_of (of_char (CHR ''0'') + d)"

fun string_of_nat :: "nat \<Rightarrow> string" where
  "string_of_nat n =
     (if 9 < n then string_of_nat (n div 10) @ [digit_char (n mod 10)]
      else [digit_char n])"

fun join_with :: "string \<Rightarrow> string list \<Rightarrow> string" where
  "join_with sep [] = []"
| "join_with sep [x] = x"
| "join_with sep (x # y # ys) = x @ sep @ join_with sep (y # ys)"

definition newline :: string where
  "newline = [CHR 0x0A]"

text \<open>A text between single quotes, as error messages show paths and option names.\<close>

definition quoted :: "string \<Rightarrow> string" where [simp]:
  "quoted s = [CHR 0x27] @ s @ [CHR 0x27]"

subsection \<open>The host runtime version and \<open>semver.gte\<close>\<close>

text \<open>
  \<open>process.version\<close> as \<open>semver\<close> parses it: the three main numbers and the prerelease
  identifiers (empty for a release).
\<close>

record version =
  major :: nat
  minor :: nat
  patch :: nat
  prerelease :: "string list"

definition version_string :: "version \<Rightarrow> string" where
  "version_string v =
     ''v'' @ string_of_nat (major v) @ ''.'' @ string_of_nat (minor v) @ ''.'' @
     string_of_nat (patch v) @
     (if prerelease v = [] then [] else ''-'' @ join_with ''.'' (prerelease v))"

text \<open>
  \<open>semver.gte(v, "M.m.p")\<close> against a release: the main numbers are compared first, and
  with equal main numbers a version that carries a prerelease tag orders below the release.
\<close>

definition semver_gte :: "version \<Rightarrow> nat \<times> nat \<times> nat \<Rightarrow> bool" where
  "semver_gte v r =
     (case r of (M, m, p) \<Rightarrow>
        if major v \<noteq> M then M < major v
        else if minor v \<noteq> m then m < minor v
        else if patch v \<noteq> p then p < patch v
        else prerelease v = [])"

subsection \<open>The \<open>path\<close> module (POSIX flavour)\<close>

text \<open>
  \<open>path.join\<close>, \<open>path.dirname\<close> and \<open>path.resolve\<close> as Node.js implements them for
  POSIX hosts, where the separator is \<open>/\<close>.
\<close>

fun split_sep :: "string \<Rightarrow> string list" where
  "split_sep [] = [[]]"
| "split_sep (c # cs) =
     (if c = CHR ''/'' then [] # split_sep cs
      else (case split_sep cs of [] \<Rightarrow> [[c]] | x # xs \<Rightarrow> (c # x) # xs))"

definition norm_step :: "bool \<Rightarrow> string list \<Rightarrow> string \<Rightarrow> string list" where
  "norm_step allowAboveRoot res seg =
     (if seg = [] \<or> seg = ''.'' then res
      else if seg = ''..'' then
        (if res \<noteq> [] \<and> last res \<noteq> ''..'' then butlast res
         else if allowAboveRoot then res @ [''..'']
         else res)
      else res @ [seg])"

definition normalizeString :: "string \<Rightarrow> bool \<Rightarrow> string" where
  "normalizeString p allowAboveRoot =
     join_with ''/'' (foldl (norm_step allowAboveRoot) [] (split_sep p))"

definition isAbsolute :: "string \<Rightarrow> bool" where
  "isAbsolute p = (p \<noteq> [] \<and> hd p = CHR ''/'')"

definition path_normalize :: "string \<Rightarrow> string" where
  "path_normalize p =
     (if p = [] then ''.''
      else
        let trailingSeparator = (last p = CHR ''/'');
            q = normalizeString p (\<not> isAbsolute p)
        in if q = [] then
             (if isAbsolute p then ''/'' else if trailingSeparator then ''./'' else ''.'')
           else (if isAbsolute p then ''/'' else []) @ q @
                (if trailingSeparator then ''/'' else []))"

text \<open>
  An argument of \<open>path.join\<close> that is not a string (\<open>undefined\<close>, here \<open>None\<close>) makes it
  throw a \<open>TypeError\<close>; empty segments are skipped and the joined text is normalised.
\<close>

definition path_join :: "string option list \<Rightarrow> error + string" where
  "path_join args =
     (if None \<in> set args then
        Inl (Error ''The \"path\" argument must be of type string. Received undefined'')
      else
        let joined = join_with ''/'' (filter (\<lambda>a. a \<noteq> []) (map the args))
        in Inr (if joined = [] then ''.'' else path_normalize joined))"

definition path_dirname :: "string \<Rightarrow> string" where
  "path_dirname p =
     (if p = [] then ''.''
      else
        let r = dropWhile (\<lambda>c. c \<noteq> CHR ''/'') (dropWhile (\<lambda>c. c = CHR ''/'') (rev (tl p)))
        in if r = [] then (if isAbsolute p then ''/'' else ''.'')
           else if isAbsolute p \<and> length r = 1 then ''//''
           else take (length r) p)"

definition path_resolve :: "string \<Rightarrow> string \<Rightarrow> string" where
  "path_resolve cwd p =
     (let full = (if p = [] then cwd else if isAbsolute p then p else cwd @ ''/'' @ p);
          q = normalizeString full (\<not> isAbsolute full)
      in if isAbsolute full then ''/'' @ q else if q = [] then ''.'' else q)"

subsection \<open>\<open>atob\<close>: forgiving base64 decoding\<close>

definition b64_value :: "char \<Rightarrow> nat option" where
  "b64_value c =
     (let n = (of_char c :: nat) in
      if 65 \<le> n \<and> n \<le> 90 then Some (n - 65)
      else if 97 \<le> n \<and> n \<le> 122 then Some (n - 71)
      else if 48 \<le> n \<and> n \<le> 57 then Some (n + 4)
      else if n = 43 then Some 62
      else if n = 47 then Some 63
      else None)"

fun b64_values :: "string \<Rightarrow> nat list option" where
  "b64_values [] = Some []"
| "b64_values (c # cs) =
     (case b64_value c of
        None \<Rightarrow> None
      | Some v \<Rightarrow> (case b64_values cs of None \<Rightarrow> None | Some vs \<Rightarrow> Some (v # vs)))"

fun b64_bytes :: "nat list \<Rightarrow> nat list" where
  "b64_bytes (a # b # c # d # rest) =
     (a * 4 + b div 16) # ((b mod 16) * 16 + c div 4) # ((c mod 4) * 64 + d) # b64_bytes rest"
| "b64_bytes [a, b, c] = [a * 4 + b div 16, (b mod 16) * 16 + c div 4]"
| "b64_bytes [a, b] = [a * 4 + b div 16]"
| "b64_bytes _ = []"

definition ascii_whitespace :: "char \<Rightarrow> bool" where
  "ascii_whitespace c = ((of_char c :: nat) \<in> {9, 10, 12, 13, 32})"

definition strip_padding :: "string \<Rightarrow> string" where
  "strip_padding s =
     (if length s mod 4 = 0 \<and> s \<noteq> [] \<and> last s = CHR ''='' then
        (if butlast s \<noteq> [] \<and> last (butlast s) = CHR ''='' then butlast (butlast s)
         else butlast s)
      else s)"

definition atob :: "string \<Rightarrow> error + string" where
  "atob s =
     (let d = strip_padding (filter (\<lambda>c. \<not> ascii_whitespace c) s) in
      if length d mod 4 = 1 then
        Inl (Error ''The string to be decoded is not correctly encoded.'')
      else
        (case b64_values d of
           None \<Rightarrow> Inl (Error ''The string to be decoded is not correctly encoded.'')
         | Some vs \<Rightarrow> Inr (map char_of (b64_bytes vs))))"

subsection \<open>The world: files, calls, log\<close>

record inject_options =
  sentinelFuse :: string
  machoSegmentName :: "string option"

text \<open>
  Every call that can change a file, and every call of an external tool, is recorded with
  its arguments when it is made. A child process is recorded with the files it starts on.
\<close>

datatype call =
    EsbuildBuild path path
  | JsConfuserObfuscate content
  | WriteFile path content
  | Unlink path
  | Mkdir path
  | CopyFile path path
  | Spawn string "string list" "path \<Rightarrow> content option"
  | Rcedit path path
  | PostjectInject path string content inject_options

record world =
  files :: "path \<Rightarrow> content option"
  calls :: "call list"
  logs :: "(level \<times> string) list"

type_synonym 'a io = "world \<Rightarrow> (error + 'a) \<times> world"

definition io_return :: "'a \<Rightarrow> 'a io" where
  "io_return x = (\<lambda>w. (Inr x, w))"

definition io_throw :: "error \<Rightarrow> 'a io" where
  "io_throw e = (\<lambda>w. (Inl e, w))"

definition io_bind :: "'a io \<Rightarrow> ('a \<Rightarrow> 'b io) \<Rightarrow> 'b io" where
  "io_bind m f = (\<lambda>w. case m w of (Inl e, w') \<Rightarrow> (Inl e, w') | (Inr x, w') \<Rightarrow> f x w')"

text \<open>\<open>try { m } catch (e) { h e }\<close>\<close>

definition io_catch :: "'a io \<Rightarrow> (error \<Rightarrow> 'a io) \<Rightarrow> 'a io" where
  "io_catch m h = (\<lambda>w. case m w of (Inl e, w') \<Rightarrow> h e w' | (Inr x, w') \<Rightarrow> (Inr x, w'))"

definition record_call :: "call \<Rightarrow> unit io" where
  "record_call c = (\<lambda>w. (Inr (), w\<lparr>calls := calls w @ [c]\<rparr>))"

text \<open>
  \<open>logger.info\<close>, \<open>logger.warn\<close>, \<open>logger.error\<close>, \<open>console.log\<close> and
  \<open>console.error\<close> append to the log; the colours that \<open>chalk\<close> adds are left out.
\<close>

definition logger :: "level \<Rightarrow> string \<Rightarrow> unit io" where
  "logger l m = (\<lambda>w. (Inr (), w\<lparr>logs := logs w @ [(l, m)]\<rparr>))"

subsection \<open>The environment: host, permissions, external tools\<close>

datatype fs_op = OpRead | OpWrite | OpUnlink | OpMkdir

text \<open>
  What the child process \<open>node --experimental-sea-config\<close> did: it could not be started
  (the \<open>error\<close> event), or it closed with an exit code, its two output streams, and the
  blob it wrote, if it wrote one.
\<close>

datatype proc_outcome =
    SpawnError error
  | Closed nat string string "content option"

text \<open>
  The external collaborators are taken at their interfaces: the bundler turns an entry file
  into one output module, the obfuscator turns code into code, the child process may write
  the blob, the icon editor and the injector turn the executable into a new executable. Each
  may fail with an error, and each sees the files present when it is called. \<open>denied\<close> tells
  which file operations the operating system refuses.
\<close>

record env =
  nodeVersion :: version
  execPath :: path
  cwd :: path
  APPDATA :: "string option"
  denied :: "fs_op \<Rightarrow> path \<Rightarrow> bool"
  bundler :: "path \<Rightarrow> (path \<Rightarrow> content option) \<Rightarrow> error + content"
  obfuscator :: "content \<Rightarrow> error + content"
  node_process :: "string list \<Rightarrow> (path \<Rightarrow> content option) \<Rightarrow> proc_outcome"
  icon_editor :: "path \<Rightarrow> path \<Rightarrow> (path \<Rightarrow> content option) \<Rightarrow> error + content"
  injector ::
    "path \<Rightarrow> string \<Rightarrow> content \<Rightarrow> inject_options \<Rightarrow> (path \<Rightarrow> content option) \<Rightarrow> error + content"

subsection \<open>The \<open>fs\<close> module\<close>

text \<open>
  Files are keyed by the path text the program uses; directories are implicit. A missing
  file and a refused operation throw, as \<open>fs\<close>'s synchronous calls do.
\<close>

definition existsSync :: "world \<Rightarrow> path \<Rightarrow> bool" where
  "existsSync w p = (files w p \<noteq> None)"

definition readFileSync :: "env \<Rightarrow> path \<Rightarrow> content io" where
  "readFileSync e p = (\<lambda>w.
     case files w p of
       None \<Rightarrow> (Inl (Error (''ENOENT: no such file or directory, open '' @ quoted p)), w)
     | Some c \<Rightarrow>
         if denied e OpRead p then (Inl (Error (''EACCES: permission denied, open '' @ quoted p)), w)
         else (Inr c, w))"

definition writeFileSync :: "env \<Rightarrow> path \<Rightarrow> content \<Rightarrow> unit io" where
  "writeFileSync e p c =
     io_bind (record_call (WriteFile p c)) (\<lambda>_ w.
       if denied e OpWrite p then (Inl (Error (''EACCES: permission denied, open '' @ quoted p)), w)
       else (Inr (), w\<lparr>files := (files w)(p \<mapsto> c)\<rparr>))"

definition unlinkSync :: "env \<Rightarrow> path \<Rightarrow> unit io" where
  "unlinkSync e p =
     io_bind (record_call (Unlink p)) (\<lambda>_ w.
       case files w p of
         None \<Rightarrow> (Inl (Error (''ENOENT: no such file or directory, unlink '' @ quoted p)), w)
       | Some _ \<Rightarrow>
           if denied e OpUnlink p then
             (Inl (Error (''EPERM: operation not permitted, unlink '' @ quoted p)), w)
           else (Inr (), w\<lparr>files := (files w)(p := None)\<rparr>))"

text \<open>\<open>fs.mkdirSync(dir, { recursive: true })\<close>: an existing directory is not an error.\<close>

definition mkdirSync :: "env \<Rightarrow> path \<Rightarrow> unit io" where
  "mkdirSync e p =
     io_bind (record_call (Mkdir p)) (\<lambda>_ w.
       if files w p \<noteq> None then (Inl (Error (''EEXIST: file already exists, mkdir '' @ quoted p)), w)
       else if denied e OpMkdir p then
         (Inl (Error (''EACCES: permission denied, mkdir '' @ quoted p)), w)
       else (Inr (), w))"

definition copyFileSync :: "env \<Rightarrow> path \<Rightarrow> path \<Rightarrow> unit io" where
  "copyFileSync e src dst =
     io_bind (record_call (CopyFile src dst)) (\<lambda>_ w.
       case files w src of
         None \<Rightarrow>
           (Inl (Error (''ENOENT: no such file or directory, copyfile '' @ quoted src @ '' -> '' @ quoted dst)), w)
       | Some c \<Rightarrow>
           if denied e OpRead src \<or> denied e OpWrite dst then
             (Inl (Error (''EACCES: permission denied, copyfile '' @ quoted src @ '' -> '' @ quoted dst)), w)
           else (Inr (), w\<lparr>files := (files w)(dst \<mapsto> c)\<rparr>))"

subsection \<open>The external tools as the program calls them\<close>

text \<open>\<open>esbuild.build({ entryPoints: [entry], outfile, ... })\<close>\<close>

definition esbuild_build :: "env \<Rightarrow> path \<Rightarrow> path \<Rightarrow> unit io" where
  "esbuild_build e entry outfile =
     io_bind (record_call (EsbuildBuild entry outfile)) (\<lambda>_ w.
       case bundler e entry (files w) of
         Inl err \<Rightarrow> (Inl err, w)
       | Inr js \<Rightarrow> (Inr (), w\<lparr>files := (files w)(outfile \<mapsto> js)\<rparr>))"

text \<open>\<open>JsConfuser.obfuscate(code, { ... })\<close> with the fixed policy of the source.\<close>

definition JsConfuser_obfuscate :: "env \<Rightarrow> content \<Rightarrow> content io" where
  "JsConfuser_obfuscate e code =
     io_bind (record_call (JsConfuserObfuscate code)) (\<lambda>_ w.
       case obfuscator e code of
         Inl err \<Rightarrow> (Inl err, w)
       | Inr obfuscated \<Rightarrow> (Inr obfuscated, w))"

text \<open>\<open>rcedit(executable, { icon })\<close>\<close>

definition rcedit :: "env \<Rightarrow> path \<Rightarrow> path \<Rightarrow> unit io" where
  "rcedit e executable ico =
     io_bind (record_call (Rcedit executable ico)) (\<lambda>_ w.
       case icon_editor e executable ico (files w) of
         Inl err \<Rightarrow> (Inl err, w)
       | Inr exe' \<Rightarrow> (Inr (), w\<lparr>files := (files w)(executable \<mapsto> exe')\<rparr>))"

text \<open>\<open>postject.inject(filename, resourceName, resourceData, options)\<close>\<close>

definition postject_inject ::
    "env \<Rightarrow> path \<Rightarrow> string \<Rightarrow> content \<Rightarrow> inject_options \<Rightarrow> unit io" where
  "postject_inject e filename resourceName resourceData options =
     io_bind (record_call (PostjectInject filename resourceName resourceData options)) (\<lambda>_ w.
       case injector e filename resourceName resourceData options (files w) of
         Inl err \<Rightarrow> (Inl err, w)
       | Inr exe' \<Rightarrow> (Inr (), w\<lparr>files := (files w)(filename \<mapsto> exe')\<rparr>))"

subsection \<open>Command line options\<close>

text \<open>
  The command line as \<open>commander\<close> sees it: the length of \<open>process.argv\<close> and the value
  given to each option, if the option is there. The command lines modelled are those that
  ask for neither the help text nor the version, which \<open>commander\<close> answers itself.
\<close>

record cli =
  argv_length :: nat
  cli_input :: "string option"
  cli_icon :: "string option"
  cli_platform :: "string option"
  cli_obfuscate :: bool

record opts =
  input :: string
  icon :: "string option"
  platform :: string
  obfuscate :: bool

text \<open>
  \<open>program.requiredOption(...)\<close> twice and \<open>.parse(process.argv)\<close>: a required option that
  is missing is an error, which \<open>commander\<close> reports before it ends the process with
  status 1. Any text is accepted as the value of an option.
\<close>

definition commander_parse :: "cli \<Rightarrow> string + opts" where
  "commander_parse c =
     (case cli_input c of
        None \<Rightarrow> Inl (''error: required option '' @ quoted ''-i, --input <file>'' @ '' not specified'')
      | Some i \<Rightarrow>
          (case cli_platform c of
             None \<Rightarrow> Inl (''error: required option '' @ quoted ''-p, --platform <platform>'' @ '' not specified'')
           | Some p \<Rightarrow>
               Inr \<lparr>input = i, icon = cli_icon c, platform = p, obfuscate = cli_obfuscate c\<rparr>))"

text \<open>JavaScript truthiness of an optional string: \<open>undefined\<close> and \<open>""\<close> are falsy.\<close>

definition truthy :: "string option \<Rightarrow> bool" where
  "truthy s = (s \<noteq> None \<and> s \<noteq> Some [])"

subsection \<open>Constants of the program\<close>

definition outputFile :: path where
  "outputFile = ''out.js''"

record sea_config =
  sea_main :: string
  sea_output :: string
  disableExperimentalSEAWarning :: bool

definition seaConfig :: sea_config where
  "seaConfig = \<lparr>sea_main = outputFile, sea_output = ''sea-prep.blob'',
                disableExperimentalSEAWarning = True\<rparr>"

text \<open>\<open>JSON.stringify(seaConfig, null, 2)\<close> for a descriptor whose texts need no escaping.\<close>

definition JSON_stringify :: "sea_config \<Rightarrow> string" where
  "JSON_stringify c =
     ''{'' @ newline @
     ''  \"main\": \"'' @ sea_main c @ ''\",'' @ newline @
     ''  \"output\": \"'' @ sea_output c @ ''\",'' @ newline @
     ''  \"disableExperimentalSEAWarning\": '' @
        (if disableExperimentalSEAWarning c then ''true'' else ''false'') @ newline @
     ''}''"

definition splash_lines :: "string list" where
  "splash_lines =
     [''SEA-Builder'',
      ''SEA-Builder - Build a Single Executable Application (SEA) from a Node.js project'',
      [],
      ''Usage:'',
      ''  sea-builder [options]'',
      [],
      ''Options:'',
      ''  -i, --input <file>      Input file (e.g. server.ts)'',
      ''  -icon, --icon <file>    Icon file (e.g. icon.ico) [Windows only]'',
      ''  -p, --platform <platform>  Target platform (win32, linux, or macos)'',
      ''  -o, --obfuscate  Obfuscate the output file using js-confuser'',
      [],
      ''Examples:'',
      ''  sea-builder -i server.ts -p win32 --obfuscate'',
      ''  sea-builder -i server.ts -p linux'',
      ''  sea-builder -i server.ts -p macos'',
      []]"

text \<open>The banner that \<open>figlet\<close> draws is kept as its text.\<close>

definition showSplash :: "unit io" where
  "showSplash = (\<lambda>w. (Inr (), w\<lparr>logs := logs w @ map (Pair ConsoleLog) splash_lines\<rparr>))"

subsection \<open>The stages\<close>

definition obfuscateOutputFile :: "env \<Rightarrow> path \<Rightarrow> unit io" where
  "obfuscateOutputFile e outFile =
     io_bind (readFileSync e outFile) (\<lambda>code.
     io_bind (JsConfuser_obfuscate e code) (\<lambda>obfuscated.
     writeFileSync e outFile obfuscated))"

text \<open>\<open>path.join\<close> of two string constants cannot throw; the names are the result.\<close>

definition getExecutableOutputPath :: "string \<Rightarrow> path" where
  "getExecutableOutputPath plat =
     (let outputDir = ''dist'';
          executableName = (if plat = ''win32'' then ''out.exe'' else ''out'')
      in case path_join [Some outputDir, Some executableName] of
           Inr p \<Rightarrow> p
         | Inl _ \<Rightarrow> [])"

definition bundleProject :: "env \<Rightarrow> path \<Rightarrow> unit io" where
  "bundleProject e inp = esbuild_build e inp outputFile"

text \<open>
  The child process reads the descriptor it is pointed at; the blob it writes goes to the
  output path the descriptor declares. The promise resolves with the two streams when the
  exit code is 0 and rejects otherwise, or when the process cannot be started.
\<close>

definition spawnNode :: "env \<Rightarrow> path \<Rightarrow> (string \<times> string) io" where
  "spawnNode e seaConfigPath =
     (let args = [''--experimental-sea-config'', seaConfigPath] in
      (\<lambda>w.
        let w1 = w\<lparr>calls := calls w @ [Spawn ''node'' args (files w)]\<rparr> in
        case node_process e args (files w) of
          SpawnError err \<Rightarrow> (Inl err, w1)
        | Closed code stdout stderr blob \<Rightarrow>
            let w2 = (case blob of
                        None \<Rightarrow> w1
                      | Some b \<Rightarrow> w1\<lparr>files := (files w1)(sea_output seaConfig \<mapsto> b)\<rparr>)
            in if code = 0 then (Inr (stdout, stderr), w2)
               else (Inl (Error (''Node process exited with code '' @ string_of_nat code @
                       newline @ ''STDOUT:'' @ newline @ stdout @
                       newline @ ''STDERR:'' @ newline @ stderr)), w2)))"

definition generateSEABlob :: "env \<Rightarrow> sea_config \<Rightarrow> unit io" where
  "generateSEABlob e cfg =
     (let seaConfigPath = ''sea-config.json'' in
      io_bind (writeFileSync e seaConfigPath (JSON_stringify cfg)) (\<lambda>_.
      io_bind (spawnNode e seaConfigPath) (\<lambda>(stdout, stderr) w.
        if \<not> existsSync w (sea_output cfg) then
          (Inl (Error (''SEA preparation blob file was not created: '' @ sea_output cfg @
                  newline @ ''STDERR:'' @ newline @ stderr)), w)
        else unlinkSync e seaConfigPath w)))"

definition createExecutableCopy :: "env \<Rightarrow> path \<Rightarrow> unit io" where
  "createExecutableCopy e executableOutputPath =
     (let nodeExecutablePath = execPath e;
          executableOutputDir = path_dirname executableOutputPath
      in io_bind (mkdirSync e executableOutputDir) (\<lambda>_.
         copyFileSync e nodeExecutablePath executableOutputPath))"

definition setIcon :: "env \<Rightarrow> path \<Rightarrow> path \<Rightarrow> unit io" where
  "setIcon e executable iconPath =
     io_catch (rcedit e executable (path_resolve (cwd e) iconPath))
       (\<lambda>err. logger LogError (''Error setting icon: '' @ message err))"

definition setExecutableIcon :: "env \<Rightarrow> path \<Rightarrow> string option \<Rightarrow> string \<Rightarrow> unit io" where
  "setExecutableIcon e executableOutputPath ico plat = (\<lambda>w.
     if truthy ico \<and> existsSync w (the ico) \<and> plat = ''win32'' then
       setIcon e executableOutputPath (the ico) w
     else if truthy ico \<and> existsSync w (the ico) \<and> plat \<noteq> ''win32'' then
       logger LogWarn ''Icon setting is only supported on Windows.'' w
     else if \<not> truthy ico \<and> plat = ''win32'' then
       (let appDataDir = APPDATA e in
        case path_join [appDataDir, Some ''npm'', Some ''node_modules'', Some ''sea-builder'',
                        Some ''default.ico''] of
          Inl err \<Rightarrow> (Inl err, w)
        | Inr iconPath \<Rightarrow> setIcon e executableOutputPath iconPath w)
     else logger LogInfo ''No icon specified or not supported on this platform.'' w)"

definition FUSE_literal :: string where
  "FUSE_literal = ''Tk9ERV9TRUFfRlVTRV9mY2U2ODBhYjJjYzQ2N2I2ZTA3MmI4YjVkZjE5OTZiMg==''"

text \<open>\<open>plat\<close> is the \<open>platform\<close> option, which the source function reads from its scope.\<close>

definition injectSEABlobIntoNodeExecutable :: "env \<Rightarrow> string \<Rightarrow> path \<Rightarrow> path \<Rightarrow> unit io" where
  "injectSEABlobIntoNodeExecutable e plat nodeExecutable seaBlobPath =
     io_bind (logger LogInfo (''Injecting SEA blob into '' @ nodeExecutable)) (\<lambda>_ w.
       case atob FUSE_literal of
         Inl err \<Rightarrow> (Inl err, w)
       | Inr FUSE_STRING \<Rightarrow>
           if \<not> existsSync w seaBlobPath then
             (Inl (Error (''The SEA preparation blob file does not exist: '' @ seaBlobPath)), w)
           else
             io_bind (readFileSync e seaBlobPath) (\<lambda>seaBlobBuffer.
             io_bind
               (io_catch
                  (postject_inject e nodeExecutable ''NODE_SEA_BLOB'' seaBlobBuffer
                     \<lparr>sentinelFuse = FUSE_STRING,
                      machoSegmentName = (if plat = ''macos'' then Some ''NODE_SEA'' else None)\<rparr>)
                  (\<lambda>err. io_throw (Error (''Error injecting SEA blob: '' @ message err))))
               (\<lambda>_.
             io_bind (unlinkSync e seaBlobPath) (\<lambda>_.
             unlinkSync e outputFile))) w)"

subsection \<open>The pipeline\<close>

text \<open>The body of the \<open>try\<close> block of \<open>main\<close>.\<close>

definition main_try :: "env \<Rightarrow> opts \<Rightarrow> unit io" where
  "main_try e opt =
     (let executableOutputPath = getExecutableOutputPath (platform opt) in
      io_bind (bundleProject e (input opt)) (\<lambda>_.
      io_bind (logger LogInfo ''Bundle completed successfully'') (\<lambda>_.
      io_bind (if obfuscate opt then
                 io_bind (obfuscateOutputFile e outputFile) (\<lambda>_.
                 logger LogInfo ''Obfuscation completed successfully'')
               else io_return ()) (\<lambda>_.
      io_bind (generateSEABlob e seaConfig) (\<lambda>_.
      io_bind (logger LogInfo ''SEA preparation blob generated successfully'') (\<lambda>_.
      io_bind (createExecutableCopy e executableOutputPath) (\<lambda>_.
      io_bind (logger LogInfo ''Executable copy created successfully'') (\<lambda>_.
      io_bind (setExecutableIcon e executableOutputPath (icon opt) (platform opt)) (\<lambda>_.
      io_bind (logger LogInfo ''Icon set successfully'') (\<lambda>_.
      io_bind (injectSEABlobIntoNodeExecutable e (platform opt) executableOutputPath
                 (sea_output seaConfig)) (\<lambda>_.
      logger LogInfo ''SEA blob injected successfully'')))))))))))"

text \<open>
  \<open>main\<close>: the splash, then the stages; an error of any stage is logged and the process
  exits with status 1. When nothing is thrown the process ends by itself, with status 0.
  The result is the exit status and the world the process leaves.
\<close>

definition main :: "env \<Rightarrow> opts \<Rightarrow> world \<Rightarrow> nat \<times> world" where
  "main e opt w =
     (case io_bind showSplash (\<lambda>_. main_try e opt) w of
        (Inl err, w') \<Rightarrow>
          (1, snd (logger LogError (''An unexpected error occurred: '' @ message err) w'))
      | (Inr _, w') \<Rightarrow> (0, w'))"

text \<open>
  The program from its start: the version check, the options, the splash-only exit for an
  argument vector shorter than two, and \<open>main\<close>.
\<close>

definition sea_builder :: "env \<Rightarrow> cli \<Rightarrow> world \<Rightarrow> nat \<times> world" where
  "sea_builder e c w =
     (if \<not> semver_gte (nodeVersion e) (19, 9, 0) then
        (1, snd (logger ConsoleError
           (''SEA-Builder [Unsuported Version Error] - The current version of Node.js ('' @
            version_string (nodeVersion e) @
            '') does not support building a Single Executable Application (SEA). '' @
            ''This feature is available from Node.js v19.9.0 onwards. '' @
            ''Please update your Node.js version and try again.'') w))
      else
        (case commander_parse c of
           Inl msg \<Rightarrow> (1, snd (logger ConsoleError msg w))
         | Inr opt \<Rightarrow>
             if argv_length c < 2 then (0, snd (showSplash w))
             else main e opt w))"

subsection \<open>Concrete hosts and command lines\<close>

text \<open>
  A host whose tools behave as their interfaces say: the bundler prefixes the source, the
  obfuscator prefixes the code, the child process writes a blob made of the module it finds,
  the icon editor and the injector append to the executable.
\<close>

definition demo_env :: env where
  "demo_env =
     \<lparr>nodeVersion = \<lparr>major = 20, minor = 11, patch = 0, prerelease = []\<rparr>,
      execPath = ''/usr/bin/node'', cwd = ''/work'', APPDATA = None,
      denied = (\<lambda>_ _. False),
      bundler = (\<lambda>entry fs.
        case fs entry of
          None \<Rightarrow> Inl (Error ''Could not resolve'')
        | Some src \<Rightarrow> Inr (''bundle:'' @ src)),
      obfuscator = (\<lambda>code. Inr (''obf:'' @ code)),
      node_process = (\<lambda>args fs.
        case fs ''out.js'' of
          None \<Rightarrow> Closed 1 [] ''no main'' None
        | Some js \<Rightarrow> Closed 0 [] [] (Some (''blob:'' @ js))),
      icon_editor = (\<lambda>exe ico fs.
        case fs exe of
          None \<Rightarrow> Inl (Error ''rcedit: no exe'')
        | Some x \<Rightarrow>
            (case fs ico of
               None \<Rightarrow> Inl (Error ''rcedit: no icon'')
             | Some i \<Rightarrow> Inr (x @ ''+icon:'' @ i))),
      injector = (\<lambda>exe seg blob options fs.
        case fs exe of
          None \<Rightarrow> Inl (Error ''no exe'')
        | Some x \<Rightarrow> Inr (x @ ''+'' @ seg @ '':'' @ blob))\<rparr>"

text \<open>The same host with Node.js 18.20.4.\<close>

definition old_node_env :: env where
  "old_node_env = demo_env\<lparr>nodeVersion := \<lparr>major = 18, minor = 20, patch = 4, prerelease = []\<rparr>\<rparr>"

text \<open>A working directory with the entry file, and the Node.js executable of the host.\<close>

definition demo_world :: world where
  "demo_world =
     \<lparr>files = [''app.js'' \<mapsto> ''console.log(1)'', ''/usr/bin/node'' \<mapsto> ''NODE''],
      calls = [], logs = []\<rparr>"

text \<open>\<open>sea-builder -i app.js -p <platform> --obfuscate\<close>\<close>

definition demo_cli :: "string \<Rightarrow> cli" where
  "demo_cli p =
     \<lparr>argv_length = 6, cli_input = Some ''app.js'', cli_icon = None, cli_platform = Some p,
      cli_obfuscate = True\<rparr>"

text \<open>A host whose child process exits with code 0 and writes nothing.\<close>

definition silent_node_env :: env where
  "silent_node_env = demo_env\<lparr>node_process := (\<lambda>args fs. Closed 0 [] ''warning'' None)\<rparr>"

text \<open>Files as the icon stage finds them, with an icon file.\<close>

definition icon_world :: world where
  "icon_world =
     \<lparr>files = [''/work/icon.ico'' \<mapsto> ''ICO'', ''dist/out.exe'' \<mapsto> ''NODE'', ''dist/out'' \<mapsto> ''NODE''],
      calls = [], logs = []\<rparr>"

text \<open>A host where \<open>APPDATA\<close> is set.\<close>

definition win_env :: env where
  "win_env = demo_env\<lparr>APPDATA := Some ''/appdata''\<rparr>"

text \<open>A host that refuses to delete \<open>out.js\<close>.\<close>

definition locked_env :: env where
  "locked_env = demo_env\<lparr>denied := (\<lambda>operation p. operation = OpUnlink \<and> p = ''out.js'')\<rparr>"

text \<open>Files as the injection stage finds them.\<close>

definition ready_world :: world where
  "ready_world =
     \<lparr>files = [''sea-prep.blob'' \<mapsto> ''BLOB'', ''out.js'' \<mapsto> ''JS'', ''dist/out'' \<mapsto> ''NODE''],
      calls = [], logs = []\<rparr>"

text \<open>The options of \<open>demo_cli ''linux''\<close> after parsing.\<close>

definition demo_opts :: opts where
  "demo_opts = \<lparr>input = ''app.js'', icon = None, platform = ''linux'', obfuscate = True\<rparr>"


subsection \<open>Two ways to speak of all runs of a stage\<close>

text \<open>
  \<open>touches_within S m\<close>: whatever \<open>m\<close> returns, files outside \<open>S\<close> are as before.
  \<open>calls_within Q m\<close>: whatever \<open>m\<close> returns, it only adds calls, and each satisfies \<open>Q\<close>.
\<close>

definition touches_within :: "path set \<Rightarrow> 'a io \<Rightarrow> bool" where
  "touches_within S m = (\<forall>w p. p \<notin> S \<longrightarrow> files (snd (m w)) p = files w p)"

definition calls_within :: "(call \<Rightarrow> bool) \<Rightarrow> 'a io \<Rightarrow> bool" where
  "calls_within Q m = (\<forall>w. \<exists>evs. calls (snd (m w)) = calls w @ evs \<and> list_all Q evs)"

section \<open>Properties\<close>

subsection \<open>The version check\<close>

lemma semver_gte_19_9_0:
  "semver_gte v (19, 9, 0) \<longleftrightarrow>
     19 < major v \<or> (major v = 19 \<and> 9 < minor v) \<or>
     (major v = 19 \<and> minor v = 9 \<and> (0 < patch v \<or> prerelease v = []))"
  by (auto simp: semver_gte_def)

text \<open>
  C6. When the host Node.js version is below 19.9.0 the program exits with status 1 and has
  done nothing but print the version error: no file is changed and no call that writes,
  copies or deletes a file, or runs a tool, has been made. The check is the first thing the
  program does, whatever the command line is.
\<close>

theorem version_check_first:
  "\<not> semver_gte (nodeVersion e) (19, 9, 0) \<Longrightarrow>
     fst (sea_builder e c w) = 1 \<and>
     files (snd (sea_builder e c w)) = files w \<and>
     calls (snd (sea_builder e c w)) = calls w \<and>
     logs (snd (sea_builder e c w)) =
       logs w @ [(ConsoleError,
         ''SEA-Builder [Unsuported Version Error] - The current version of Node.js ('' @
         version_string (nodeVersion e) @
         '') does not support building a Single Executable Application (SEA). '' @
         ''This feature is available from Node.js v19.9.0 onwards. '' @
         ''Please update your Node.js version and try again.'')]"
  by (simp add: sea_builder_def logger_def)

theorem version_check_first_witness:
  "\<not> semver_gte (nodeVersion old_node_env) (19, 9, 0) \<and>
   fst (sea_builder old_node_env (demo_cli ''linux'') demo_world) = 1 \<and>
   files (snd (sea_builder old_node_env (demo_cli ''linux'') demo_world)) ''dist/out'' = None \<and>
   calls (snd (sea_builder old_node_env (demo_cli ''linux'') demo_world)) = []"
proof -
  have h: "\<not> semver_gte (nodeVersion old_node_env) (19, 9, 0)"
    by (simp add: semver_gte_def old_node_env_def)
  show ?thesis
    using h version_check_first [OF h, of "demo_cli ''linux''" demo_world]
    by (simp add: demo_world_def)
qed

subsection \<open>Sequencing\<close>


lemma io_bind_Inl: "m w = (Inl err, w1) \<Longrightarrow> io_bind m f w = (Inl err, w1)"
  by (simp add: io_bind_def)

lemma io_bind_InrD:
  "io_bind m f w = (Inr y, w') \<Longrightarrow> \<exists>x w1. m w = (Inr x, w1) \<and> f x w1 = (Inr y, w')"
  by (auto simp: io_bind_def split: prod.splits sum.splits)

lemma logger_eq: "logger l m w = (Inr (), w\<lparr>logs := logs w @ [(l, m)]\<rparr>)"
  by (simp add: logger_def)

subsection \<open>Preparation blob generation\<close>

lemma writeFileSync_eq:
  "writeFileSync e p c w =
     (if denied e OpWrite p
      then (Inl (Error (''EACCES: permission denied, open '' @ quoted p)), w\<lparr>calls := calls w @ [WriteFile p c]\<rparr>)
      else (Inr (), w\<lparr>calls := calls w @ [WriteFile p c], files := (files w)(p \<mapsto> c)\<rparr>))"
  by (simp add: writeFileSync_def io_bind_def record_call_def)

lemma unlinkSync_eq:
  "unlinkSync e p w =
     (case files w p of
        None \<Rightarrow> (Inl (Error (''ENOENT: no such file or directory, unlink '' @ quoted p)), w\<lparr>calls := calls w @ [Unlink p]\<rparr>)
      | Some _ \<Rightarrow>
          if denied e OpUnlink p
          then (Inl (Error (''EPERM: operation not permitted, unlink '' @ quoted p)), w\<lparr>calls := calls w @ [Unlink p]\<rparr>)
          else (Inr (), w\<lparr>calls := calls w @ [Unlink p], files := (files w)(p := None)\<rparr>))"
  by (simp add: unlinkSync_def io_bind_def record_call_def split: option.splits)

lemma generateSEABlob_write_denied:
  "denied e OpWrite ''sea-config.json'' \<Longrightarrow>
   generateSEABlob e seaConfig w =
     (Inl (Error (''EACCES: permission denied, open '' @ quoted ''sea-config.json'')),
      w\<lparr>calls := calls w @ [WriteFile ''sea-config.json'' (JSON_stringify seaConfig)]\<rparr>)"
  by (simp add: generateSEABlob_def writeFileSync_eq io_bind_def Let_def)

lemma generateSEABlob_closed0:
  assumes "\<not> denied e OpWrite ''sea-config.json''"
    and "node_process e [''--experimental-sea-config'', ''sea-config.json'']
      ((files w)(''sea-config.json'' \<mapsto> JSON_stringify seaConfig)) = Closed 0 out err blob"
  shows "generateSEABlob e seaConfig w =
     (let w1 = w\<lparr>calls := calls w @
                  [WriteFile ''sea-config.json'' (JSON_stringify seaConfig),
                   Spawn ''node'' [''--experimental-sea-config'', ''sea-config.json'']
                     ((files w)(''sea-config.json'' \<mapsto> JSON_stringify seaConfig))],
                 files := (case blob of None \<Rightarrow> (files w)(''sea-config.json'' \<mapsto> JSON_stringify seaConfig)
                           | Some b \<Rightarrow> (files w)(''sea-config.json'' \<mapsto> JSON_stringify seaConfig, ''sea-prep.blob'' \<mapsto> b))\<rparr>
      in if blob = None \<and> files w ''sea-prep.blob'' = None then
           (Inl (Error (''SEA preparation blob file was not created: sea-prep.blob'' @
                  newline @ ''STDERR:'' @ newline @ err)), w1)
         else if denied e OpUnlink ''sea-config.json'' then
           (Inl (Error (''EPERM: operation not permitted, unlink '' @ quoted ''sea-config.json'')),
            w1\<lparr>calls := calls w1 @ [Unlink ''sea-config.json'']\<rparr>)
         else (Inr (), w1\<lparr>calls := calls w1 @ [Unlink ''sea-config.json''],
                           files := (files w1)(''sea-config.json'' := None)\<rparr>))"
  using assms
  by (cases blob)
     (simp_all add: generateSEABlob_def spawnNode_def writeFileSync_eq unlinkSync_eq io_bind_def
      existsSync_def seaConfig_def Let_def)


lemma generateSEABlob_calls_prefix:
  assumes "\<not> denied e OpWrite ''sea-config.json''"
  shows "take 2 (drop (length (calls w)) (calls (snd (generateSEABlob e seaConfig w)))) =
     [WriteFile ''sea-config.json'' (JSON_stringify seaConfig),
      Spawn ''node'' [''--experimental-sea-config'', ''sea-config.json'']
        ((files w)(''sea-config.json'' \<mapsto> JSON_stringify seaConfig))]"
proof (cases "node_process e [''--experimental-sea-config'', ''sea-config.json'']
      ((files w)(''sea-config.json'' \<mapsto> JSON_stringify seaConfig))")
  case (SpawnError err)
  with assms show ?thesis
    by (simp add: generateSEABlob_def spawnNode_def writeFileSync_eq io_bind_def Let_def)
next
  case (Closed code out err blob)
  show ?thesis
  proof (cases "code = 0")
    case True
    with assms Closed show ?thesis
      by (simp add: generateSEABlob_closed0 Let_def)
  next
    case False
    with assms Closed show ?thesis
      by (cases blob)
         (simp_all add: generateSEABlob_def spawnNode_def writeFileSync_eq io_bind_def Let_def)
  qed
qed

text \<open>
  C2. Every call of the blob generation stage first writes the descriptor to
  \<open>sea-config.json\<close> and only then runs the child process, which starts on the files
  with the descriptor in place (if the write is refused, the stage throws and no process is
  run). When the process exits with code 0 and no blob file exists afterwards, the stage
  throws the "was not created" error, the descriptor file is still there with its content,
  and no deletion was attempted. When the blob file exists, the stage's last call deletes
  the descriptor; the stage returns normally exactly when that deletion is allowed, and
  then the descriptor file is gone.
\<close>

theorem generateSEABlob_descriptor_lifecycle:
  "(denied e OpWrite ''sea-config.json'' \<longrightarrow>
      isl (fst (generateSEABlob e seaConfig w)) \<and>
      calls (snd (generateSEABlob e seaConfig w)) =
        calls w @ [WriteFile ''sea-config.json'' (JSON_stringify seaConfig)]) \<and>
   (\<not> denied e OpWrite ''sea-config.json'' \<longrightarrow>
      take 2 (drop (length (calls w)) (calls (snd (generateSEABlob e seaConfig w)))) =
        [WriteFile ''sea-config.json'' (JSON_stringify seaConfig),
         Spawn ''node'' [''--experimental-sea-config'', ''sea-config.json'']
           ((files w)(''sea-config.json'' \<mapsto> JSON_stringify seaConfig))]) \<and>
   (\<not> denied e OpWrite ''sea-config.json'' \<and>
    node_process e [''--experimental-sea-config'', ''sea-config.json'']
      ((files w)(''sea-config.json'' \<mapsto> JSON_stringify seaConfig)) = Closed 0 out err blob \<longrightarrow>
      (blob = None \<and> files w ''sea-prep.blob'' = None \<longrightarrow>
         fst (generateSEABlob e seaConfig w) =
           Inl (Error (''SEA preparation blob file was not created: sea-prep.blob'' @
                  newline @ ''STDERR:'' @ newline @ err)) \<and>
         files (snd (generateSEABlob e seaConfig w)) ''sea-prep.blob'' = None \<and>
         files (snd (generateSEABlob e seaConfig w)) ''sea-config.json'' =
           Some (JSON_stringify seaConfig) \<and>
         calls (snd (generateSEABlob e seaConfig w)) =
           calls w @
           [WriteFile ''sea-config.json'' (JSON_stringify seaConfig),
            Spawn ''node'' [''--experimental-sea-config'', ''sea-config.json'']
              ((files w)(''sea-config.json'' \<mapsto> JSON_stringify seaConfig))]) \<and>
      (blob \<noteq> None \<or> files w ''sea-prep.blob'' \<noteq> None \<longrightarrow>
         files (snd (generateSEABlob e seaConfig w)) ''sea-prep.blob'' \<noteq> None \<and>
         calls (snd (generateSEABlob e seaConfig w)) =
           calls w @
           [WriteFile ''sea-config.json'' (JSON_stringify seaConfig),
            Spawn ''node'' [''--experimental-sea-config'', ''sea-config.json'']
              ((files w)(''sea-config.json'' \<mapsto> JSON_stringify seaConfig)),
            Unlink ''sea-config.json''] \<and>
         (fst (generateSEABlob e seaConfig w) = Inr () \<longleftrightarrow>
            \<not> denied e OpUnlink ''sea-config.json'') \<and>
         (fst (generateSEABlob e seaConfig w) = Inr () \<longrightarrow>
            files (snd (generateSEABlob e seaConfig w)) ''sea-config.json'' = None)))"
proof (intro conjI impI)
  assume "denied e OpWrite ''sea-config.json''"
  then show "isl (fst (generateSEABlob e seaConfig w))"
    and "calls (snd (generateSEABlob e seaConfig w)) =
        calls w @ [WriteFile ''sea-config.json'' (JSON_stringify seaConfig)]"
    by (simp_all add: generateSEABlob_write_denied)
next
  assume "\<not> denied e OpWrite ''sea-config.json''"
  then show "take 2 (drop (length (calls w)) (calls (snd (generateSEABlob e seaConfig w)))) =
        [WriteFile ''sea-config.json'' (JSON_stringify seaConfig),
         Spawn ''node'' [''--experimental-sea-config'', ''sea-config.json'']
           ((files w)(''sea-config.json'' \<mapsto> JSON_stringify seaConfig))]"
    by (rule generateSEABlob_calls_prefix)
next
  assume a: "\<not> denied e OpWrite ''sea-config.json'' \<and>
    node_process e [''--experimental-sea-config'', ''sea-config.json'']
      ((files w)(''sea-config.json'' \<mapsto> JSON_stringify seaConfig)) = Closed 0 out err blob"
    and b: "blob = None \<and> files w ''sea-prep.blob'' = None"
  note eq = generateSEABlob_closed0 [OF conjunct1 [OF a] conjunct2 [OF a]]
  from b show "fst (generateSEABlob e seaConfig w) =
           Inl (Error (''SEA preparation blob file was not created: sea-prep.blob'' @
                  newline @ ''STDERR:'' @ newline @ err))"
    by (simp add: eq Let_def)
  from b show "files (snd (generateSEABlob e seaConfig w)) ''sea-prep.blob'' = None"
    by (simp add: eq Let_def)
  from b show "files (snd (generateSEABlob e seaConfig w)) ''sea-config.json'' =
           Some (JSON_stringify seaConfig)"
    by (simp add: eq Let_def)
  from b show "calls (snd (generateSEABlob e seaConfig w)) =
           calls w @
           [WriteFile ''sea-config.json'' (JSON_stringify seaConfig),
            Spawn ''node'' [''--experimental-sea-config'', ''sea-config.json'']
              ((files w)(''sea-config.json'' \<mapsto> JSON_stringify seaConfig))]"
    by (simp add: eq Let_def)
next
  assume a: "\<not> denied e OpWrite ''sea-config.json'' \<and>
    node_process e [''--experimental-sea-config'', ''sea-config.json'']
      ((files w)(''sea-config.json'' \<mapsto> JSON_stringify seaConfig)) = Closed 0 out err blob"
    and b: "blob \<noteq> None \<or> files w ''sea-prep.blob'' \<noteq> None"
  note eq = generateSEABlob_closed0 [OF conjunct1 [OF a] conjunct2 [OF a]]
  from b have nb: "\<not> (blob = None \<and> files w ''sea-prep.blob'' = None)" by blast
  show "files (snd (generateSEABlob e seaConfig w)) ''sea-prep.blob'' \<noteq> None"
    using b by (cases blob) (auto simp: eq Let_def)
  show "calls (snd (generateSEABlob e seaConfig w)) =
           calls w @
           [WriteFile ''sea-config.json'' (JSON_stringify seaConfig),
            Spawn ''node'' [''--experimental-sea-config'', ''sea-config.json'']
              ((files w)(''sea-config.json'' \<mapsto> JSON_stringify seaConfig)),
            Unlink ''sea-config.json'']"
    using nb by (simp add: eq Let_def)
  show "fst (generateSEABlob e seaConfig w) = Inr () \<longleftrightarrow>
            \<not> denied e OpUnlink ''sea-config.json''"
    using nb by (simp add: eq Let_def)
  show "files (snd (generateSEABlob e seaConfig w)) ''sea-config.json'' = None"
    if "fst (generateSEABlob e seaConfig w) = Inr ()"
    using nb that by (simp add: eq Let_def split: if_splits)
qed

theorem generateSEABlob_descriptor_lifecycle_witness:
  "\<not> denied silent_node_env OpWrite ''sea-config.json'' \<and>
   node_process silent_node_env [''--experimental-sea-config'', ''sea-config.json'']
     ((files demo_world)(''sea-config.json'' \<mapsto> JSON_stringify seaConfig)) =
     Closed 0 [] ''warning'' None \<and>
   files demo_world ''sea-prep.blob'' = None \<and>
   fst (generateSEABlob silent_node_env seaConfig demo_world) =
     Inl (Error (''SEA preparation blob file was not created: sea-prep.blob'' @
            newline @ ''STDERR:'' @ newline @ ''warning'')) \<and>
   files (snd (generateSEABlob silent_node_env seaConfig demo_world)) ''sea-config.json'' =
     Some (JSON_stringify seaConfig) \<and>
   \<not> denied demo_env OpWrite ''sea-config.json'' \<and>
   \<not> denied demo_env OpUnlink ''sea-config.json'' \<and>
   node_process demo_env [''--experimental-sea-config'', ''sea-config.json'']
     ((files (demo_world\<lparr>files := (files demo_world)(''out.js'' \<mapsto> ''js'')\<rparr>))(''sea-config.json'' \<mapsto> JSON_stringify seaConfig)) =
     Closed 0 [] [] (Some ''blob:js'') \<and>
   fst (generateSEABlob demo_env seaConfig (demo_world\<lparr>files := (files demo_world)(''out.js'' \<mapsto> ''js'')\<rparr>)) = Inr () \<and>
   files (snd (generateSEABlob demo_env seaConfig (demo_world\<lparr>files := (files demo_world)(''out.js'' \<mapsto> ''js'')\<rparr>))) ''sea-config.json'' = None \<and>
   files (snd (generateSEABlob demo_env seaConfig (demo_world\<lparr>files := (files demo_world)(''out.js'' \<mapsto> ''js'')\<rparr>))) ''sea-prep.blob'' \<noteq> None"
  using generateSEABlob_descriptor_lifecycle
          [of silent_node_env demo_world "[]" "''warning''" None]
        generateSEABlob_descriptor_lifecycle
          [of demo_env "demo_world\<lparr>files := (files demo_world)(''out.js'' \<mapsto> ''js'')\<rparr>" "[]" "[]" "Some ''blob:js''"]
  by (simp add: silent_node_env_def demo_env_def demo_world_def)

subsection \<open>Files a stage can change\<close>

lemma touches_within_mono: "touches_within S m \<Longrightarrow> S \<subseteq> T \<Longrightarrow> touches_within T m"
  by (auto simp: touches_within_def)

lemma touches_within_bind:
  assumes "touches_within S m" and "\<And>x. touches_within S (f x)"
  shows "touches_within S (io_bind m f)"
proof -
  have "files (snd (io_bind m f w)) p = files w p" if "p \<notin> S" for w p
  proof (cases "m w")
    case (Pair r w1)
    from assms(1) that have 1: "files w1 p = files w p"
      using Pair by (auto simp: touches_within_def dest: spec [of _ w])
    show ?thesis
    proof (cases r)
      case (Inl err)
      with Pair 1 show ?thesis by (simp add: io_bind_def)
    next
      case (Inr x)
      from assms(2) [of x] that have "files (snd (f x w1)) p = files w1 p"
        by (simp add: touches_within_def)
      with Pair Inr 1 show ?thesis by (simp add: io_bind_def)
    qed
  qed
  then show ?thesis by (simp add: touches_within_def)
qed

lemma touches_within_catch:
  assumes "touches_within S m" and "\<And>x. touches_within S (h x)"
  shows "touches_within S (io_catch m h)"
proof -
  have "files (snd (io_catch m h w)) p = files w p" if "p \<notin> S" for w p
  proof (cases "m w")
    case (Pair r w1)
    from assms(1) that have 1: "files w1 p = files w p"
      using Pair by (auto simp: touches_within_def dest: spec [of _ w])
    show ?thesis
    proof (cases r)
      case (Inr x)
      with Pair 1 show ?thesis by (simp add: io_catch_def)
    next
      case (Inl err)
      from assms(2) [of err] that have "files (snd (h err w1)) p = files w1 p"
        by (simp add: touches_within_def)
      with Pair Inl 1 show ?thesis by (simp add: io_catch_def)
    qed
  qed
  then show ?thesis by (simp add: touches_within_def)
qed

lemma touches_within_simple [simp]:
  "touches_within S (io_return x)" "touches_within S (io_throw err)"
  "touches_within S (logger l msg)" "touches_within S (record_call c)"
  "touches_within S showSplash" "touches_within S (readFileSync e p)"
  "touches_within S (mkdirSync e p)" "touches_within S (JsConfuser_obfuscate e code)"
  by (auto simp: touches_within_def io_return_def io_throw_def logger_def record_call_def
      showSplash_def readFileSync_def mkdirSync_def JsConfuser_obfuscate_def io_bind_def
      split: option.splits sum.splits)

lemma touches_within_write:
  "p \<in> S \<Longrightarrow> touches_within S (writeFileSync e p c)"
  "p \<in> S \<Longrightarrow> touches_within S (unlinkSync e p)"
  "p \<in> S \<Longrightarrow> touches_within S (copyFileSync e src p)"
  "p \<in> S \<Longrightarrow> touches_within S (esbuild_build e entry p)"
  "p \<in> S \<Longrightarrow> touches_within S (rcedit e p ico)"
  "p \<in> S \<Longrightarrow> touches_within S (postject_inject e p seg blob options)"
  by (auto simp: touches_within_def writeFileSync_def unlinkSync_def copyFileSync_def
      esbuild_build_def rcedit_def postject_inject_def record_call_def io_bind_def
      split: option.splits sum.splits)

lemma touches_within_spawnNode:
  "''sea-prep.blob'' \<in> S \<Longrightarrow> touches_within S (spawnNode e p)"
  by (auto simp: touches_within_def spawnNode_def seaConfig_def Let_def
      split: proc_outcome.splits option.splits)

lemma touches_within_obfuscateOutputFile:
  "p \<in> S \<Longrightarrow> touches_within S (obfuscateOutputFile e p)"
  unfolding obfuscateOutputFile_def
  by (intro touches_within_bind touches_within_write touches_within_simple)

lemma touches_within_generateSEABlob:
  assumes "''sea-config.json'' \<in> S" and "''sea-prep.blob'' \<in> S"
  shows "touches_within S (generateSEABlob e cfg)"
proof -
  have "touches_within S (\<lambda>w. if \<not> existsSync w (sea_output cfg) then (Inl (Error (msg :: string)), w)
                              else unlinkSync e ''sea-config.json'' w)" for msg
    using touches_within_write(2) [OF assms(1), of e]
    by (simp add: touches_within_def)
  then show ?thesis
    unfolding generateSEABlob_def Let_def
    by (intro touches_within_bind touches_within_write touches_within_spawnNode assms)
       (simp add: split_def)
qed

lemma touches_within_createExecutableCopy:
  "p \<in> S \<Longrightarrow> touches_within S (createExecutableCopy e p)"
  unfolding createExecutableCopy_def Let_def
  by (intro touches_within_bind touches_within_write touches_within_simple)

lemma touches_within_setIcon:
  "p \<in> S \<Longrightarrow> touches_within S (setIcon e p ico)"
  unfolding setIcon_def
  by (intro touches_within_catch touches_within_write touches_within_simple)

lemma touches_within_setExecutableIcon:
  assumes "p \<in> S"
  shows "touches_within S (setExecutableIcon e p ico plat)"
  using touches_within_setIcon [OF assms, of e]
  by (auto simp: touches_within_def setExecutableIcon_def logger_def split: sum.splits)

lemma touches_within_injectSEABlobIntoNodeExecutable:
  assumes "exe \<in> S" and "blobp \<in> S" and "outputFile \<in> S"
  shows "touches_within S (injectSEABlobIntoNodeExecutable e plat exe blobp)"
proof -
  have 1: "touches_within S
     (io_bind (readFileSync e blobp) (\<lambda>seaBlobBuffer.
        io_bind
          (io_catch (postject_inject e exe ''NODE_SEA_BLOB'' seaBlobBuffer options)
             (\<lambda>err. io_throw (Error (''Error injecting SEA blob: '' @ message err))))
          (\<lambda>_. io_bind (unlinkSync e blobp) (\<lambda>_. unlinkSync e outputFile))))" for options
    by (intro touches_within_bind touches_within_catch touches_within_write touches_within_simple assms)
  show ?thesis
    unfolding injectSEABlobIntoNodeExecutable_def
    apply (rule touches_within_bind)
     apply simp
    using 1
    apply (auto simp: touches_within_def split: sum.splits)
    done
qed

lemma touches_within_main_try:
  "touches_within {getExecutableOutputPath (platform opt), ''out.js'', ''sea-config.json'', ''sea-prep.blob''}
     (main_try e opt)"
  unfolding main_try_def Let_def
  by (intro touches_within_bind touches_within_simple touches_within_obfuscateOutputFile
        touches_within_generateSEABlob touches_within_createExecutableCopy
        touches_within_setExecutableIcon touches_within_injectSEABlobIntoNodeExecutable
        touches_within_write)
     (simp_all add: bundleProject_def touches_within_write outputFile_def seaConfig_def
        touches_within_bind touches_within_obfuscateOutputFile)

subsection \<open>A successful run\<close>

lemma getExecutableOutputPath_eq:
  "getExecutableOutputPath plat = (if plat = ''win32'' then ''dist/out.exe'' else ''dist/out'')"
  by (simp add: getExecutableOutputPath_def path_join_def path_normalize_def normalizeString_def
      norm_step_def isAbsolute_def Let_def)

lemma touches_withinD:
  "touches_within S m \<Longrightarrow> m w = (r, w') \<Longrightarrow> p \<notin> S \<Longrightarrow> files w' p = files w p"
  by (auto simp: touches_within_def dest: spec [of _ w])

lemma generateSEABlob_Inr:
  assumes "generateSEABlob e seaConfig w = (Inr u, w')"
  shows "files w' ''sea-config.json'' = None \<and> files w' ''sea-prep.blob'' \<noteq> None"
  using assms
  by (auto simp: generateSEABlob_def spawnNode_def writeFileSync_eq unlinkSync_eq io_bind_def
      existsSync_def seaConfig_def Let_def
      split: proc_outcome.splits option.splits if_splits)

lemma postject_inject_eq:
  "postject_inject e exe seg blob options w =
     (case injector e exe seg blob options (files w) of
        Inl err \<Rightarrow> (Inl err, w\<lparr>calls := calls w @ [PostjectInject exe seg blob options]\<rparr>)
      | Inr exe' \<Rightarrow> (Inr (), w\<lparr>calls := calls w @ [PostjectInject exe seg blob options],
                                files := (files w)(exe \<mapsto> exe')\<rparr>))"
  by (simp add: postject_inject_def io_bind_def record_call_def split: sum.splits)

lemma injectSEABlobIntoNodeExecutable_Inr:
  assumes "injectSEABlobIntoNodeExecutable e plat exe blobp w = (Inr u, w')"
    and "exe \<noteq> blobp" and "exe \<noteq> outputFile"
  shows "files w' blobp = None \<and> files w' outputFile = None \<and> files w' exe \<noteq> None"
  using assms
  by (auto simp: injectSEABlobIntoNodeExecutable_def logger_eq io_bind_def io_catch_def
      io_throw_def readFileSync_def postject_inject_eq unlinkSync_eq existsSync_def
      split: sum.splits option.splits if_splits prod.splits)


lemma main_try_Inr_files:
  assumes "main_try e opt w = (Inr u, w')"
  shows "files w' (getExecutableOutputPath (platform opt)) \<noteq> None \<and>
         files w' ''out.js'' = None \<and> files w' ''sea-config.json'' = None \<and>
         files w' ''sea-prep.blob'' = None"
proof -
  let ?exe = "getExecutableOutputPath (platform opt)"
  from assms obtain w4 w5 w6 w7 w8 w9 w10 where
    gen: "generateSEABlob e seaConfig w4 = (Inr (), w5)"
    and cp: "createExecutableCopy e ?exe (snd (logger LogInfo ''SEA preparation blob generated successfully'' w5)) = (Inr (), w6)"
    and ic: "setExecutableIcon e ?exe (icon opt) (platform opt) w7 = (Inr (), w8)"
    and w7: "w7 = snd (logger LogInfo ''Executable copy created successfully'' w6)"
    and inj: "injectSEABlobIntoNodeExecutable e (platform opt) ?exe (sea_output seaConfig) w9 = (Inr (), w10)"
    and w9: "w9 = snd (logger LogInfo ''Icon set successfully'' w8)"
    and w': "w' = snd (logger LogInfo ''SEA blob injected successfully'' w10)"
    unfolding main_try_def Let_def
    by (fastforce dest!: io_bind_InrD simp: logger_eq)
  have ne: "?exe \<noteq> ''sea-prep.blob''" "?exe \<noteq> outputFile" "?exe \<noteq> ''sea-config.json''"
    by (simp_all add: getExecutableOutputPath_eq outputFile_def)
  have so: "sea_output seaConfig = ''sea-prep.blob''"
    by (simp add: seaConfig_def)
  from injectSEABlobIntoNodeExecutable_Inr [OF inj] ne
  have post: "files w10 ''sea-prep.blob'' = None" "files w10 ''out.js'' = None"
    "files w10 ?exe \<noteq> None"
    by (simp_all add: so outputFile_def)
  from generateSEABlob_Inr [OF gen] have "files w5 ''sea-config.json'' = None" by simp
  moreover have "files w6 ''sea-config.json'' = files w5 ''sea-config.json''"
  proof -
    have "touches_within {?exe} (createExecutableCopy e ?exe)"
      by (rule touches_within_createExecutableCopy) simp
    from touches_withinD [OF this cp, of "''sea-config.json''"] ne show ?thesis
      by (simp add: logger_eq)
  qed
  moreover have "files w8 ''sea-config.json'' = files w6 ''sea-config.json''"
  proof -
    have "touches_within {?exe} (setExecutableIcon e ?exe (icon opt) (platform opt))"
      by (rule touches_within_setExecutableIcon) simp
    from touches_withinD [OF this ic, of "''sea-config.json''"] ne show ?thesis
      by (simp add: logger_eq w7)
  qed
  moreover have "files w10 ''sea-config.json'' = files w8 ''sea-config.json''"
  proof -
    have "touches_within {?exe, ''sea-prep.blob'', ''out.js''}
       (injectSEABlobIntoNodeExecutable e (platform opt) ?exe (sea_output seaConfig))"
      by (rule touches_within_injectSEABlobIntoNodeExecutable) (simp_all add: so outputFile_def)
    from touches_withinD [OF this inj, of "''sea-config.json''"] ne show ?thesis
      by (simp add: logger_eq w9)
  qed
  ultimately have "files w10 ''sea-config.json'' = None" by simp
  with post show ?thesis by (simp add: w' logger_eq)
qed

lemma main_exit_0:
  assumes "fst (main e opt w) = 0"
  shows "main_try e opt (snd (showSplash w)) = (Inr (), snd (main e opt w))"
  using assms
  by (auto simp: main_def io_bind_def showSplash_def split: prod.splits sum.splits)

lemma sea_builder_exit_0:
  assumes "fst (sea_builder e c w) = 0" and "2 \<le> argv_length c"
  shows "\<exists>opt. commander_parse c = Inr opt \<and> sea_builder e c w = main e opt w"
  using assms
  by (auto simp: sea_builder_def split: if_splits sum.splits)

lemma commander_parse_Inr:
  "commander_parse c = Inr opt \<Longrightarrow>
     cli_input c = Some (input opt) \<and> cli_platform c = Some (platform opt) \<and>
     icon opt = cli_icon c \<and> obfuscate opt = cli_obfuscate c"
  by (auto simp: commander_parse_def split: option.splits)

text \<open>
  C7. Whatever the platform option is, a run of the program that goes through \<open>main\<close> and
  ends with status 0 leaves the executable at \<open>dist/out.exe\<close> when the platform is
  \<open>win32\<close> and at \<open>dist/out\<close> otherwise; no file named \<open>out.js\<close>,
  \<open>sea-config.json\<close> or \<open>sea-prep.blob\<close> is left, and every other file is as it was
  before the run. (With or without an icon option; an argument vector of at least two
  entries is what Node.js always provides.)
\<close>

theorem successful_run_leaves_one_executable:
  assumes "fst (sea_builder e c w) = 0" and "2 \<le> argv_length c"
  shows "files (snd (sea_builder e c w))
           (if cli_platform c = Some ''win32'' then ''dist/out.exe'' else ''dist/out'') \<noteq> None \<and>
         files (snd (sea_builder e c w)) ''out.js'' = None \<and>
         files (snd (sea_builder e c w)) ''sea-config.json'' = None \<and>
         files (snd (sea_builder e c w)) ''sea-prep.blob'' = None \<and>
         (\<forall>p. p \<notin> {if cli_platform c = Some ''win32'' then ''dist/out.exe'' else ''dist/out'',
                  ''out.js'', ''sea-config.json'', ''sea-prep.blob''} \<longrightarrow>
              files (snd (sea_builder e c w)) p = files w p)"
proof -
  from sea_builder_exit_0 [OF assms] obtain opt where
    opt: "commander_parse c = Inr opt" and eq: "sea_builder e c w = main e opt w"
    by blast
  from assms(1) eq have "fst (main e opt w) = 0" by simp
  from main_exit_0 [OF this] have
    run: "main_try e opt (snd (showSplash w)) = (Inr (), snd (main e opt w))" .
  have w0: "files (snd (showSplash w)) = files w"
    by (simp add: showSplash_def)
  have exe: "getExecutableOutputPath (platform opt) =
      (if cli_platform c = Some ''win32'' then ''dist/out.exe'' else ''dist/out'')"
    using commander_parse_Inr [OF opt] by (simp add: getExecutableOutputPath_eq)
  have frame: "files (snd (main e opt w)) p = files w p"
    if "p \<notin> {getExecutableOutputPath (platform opt), ''out.js'', ''sea-config.json'', ''sea-prep.blob''}" for p
    using touches_withinD [OF touches_within_main_try run that] w0 by simp
  from main_try_Inr_files [OF run] frame show ?thesis
    unfolding eq exe by blast
qed

theorem successful_run_leaves_one_executable_witness:
  "fst (sea_builder demo_env (demo_cli ''linux'') demo_world) = 0 \<and>
   2 \<le> argv_length (demo_cli ''linux'') \<and>
   files (snd (sea_builder demo_env (demo_cli ''linux'') demo_world)) ''dist/out'' \<noteq> None \<and>
   files (snd (sea_builder demo_env (demo_cli ''linux'') demo_world)) ''out.js'' = None \<and>
   files (snd (sea_builder demo_env (demo_cli ''linux'') demo_world)) ''sea-config.json'' = None \<and>
   files (snd (sea_builder demo_env (demo_cli ''linux'') demo_world)) ''sea-prep.blob'' = None \<and>
   files (snd (sea_builder demo_env (demo_cli ''linux'') demo_world)) ''app.js'' =
     Some ''console.log(1)''"
proof -
  have h1: "fst (sea_builder demo_env (demo_cli ''linux'') demo_world) = 0"
    by code_simp
  have h2: "2 \<le> argv_length (demo_cli ''linux'')"
    by (simp add: demo_cli_def)
  have p: "cli_platform (demo_cli ''linux'') \<noteq> Some ''win32''"
    by (simp add: demo_cli_def)
  from successful_run_leaves_one_executable [OF h1 h2]
  have "files (snd (sea_builder demo_env (demo_cli ''linux'') demo_world)) ''app.js'' =
          files demo_world ''app.js''"
    and "files (snd (sea_builder demo_env (demo_cli ''linux'') demo_world)) ''dist/out'' \<noteq> None"
    and "files (snd (sea_builder demo_env (demo_cli ''linux'') demo_world)) ''out.js'' = None"
    and "files (snd (sea_builder demo_env (demo_cli ''linux'') demo_world)) ''sea-config.json'' = None"
    and "files (snd (sea_builder demo_env (demo_cli ''linux'') demo_world)) ''sea-prep.blob'' = None"
    using p by simp_all
  with h1 h2 show ?thesis
    by (simp add: demo_world_def)
qed

subsection \<open>Calls a stage can make\<close>

lemma io_bind_assoc:
  "io_bind (io_bind m f) g = io_bind m (\<lambda>x. io_bind (f x) g)"
  by (auto simp: io_bind_def fun_eq_iff split: prod.splits sum.splits)

lemma calls_withinD:
  "calls_within Q m \<Longrightarrow> m w = (r, w') \<Longrightarrow> \<exists>evs. calls w' = calls w @ evs \<and> list_all Q evs"
  by (auto simp: calls_within_def dest: spec [of _ w])

lemma calls_within_mono:
  "calls_within Q m \<Longrightarrow> (\<And>c. Q c \<Longrightarrow> Q' c) \<Longrightarrow> calls_within Q' m"
  unfolding calls_within_def list_all_iff by blast

lemma calls_within_bind:
  assumes "calls_within Q m" and "\<And>x. calls_within Q (f x)"
  shows "calls_within Q (io_bind m f)"
proof -
  have "\<exists>evs. calls (snd (io_bind m f w)) = calls w @ evs \<and> list_all Q evs" for w
  proof (cases "m w")
    case (Pair r w1)
    from calls_withinD [OF assms(1) Pair] obtain evs1 where
      1: "calls w1 = calls w @ evs1" "list_all Q evs1" by blast
    show ?thesis
    proof (cases r)
      case (Inl err)
      with Pair 1 show ?thesis by (simp add: io_bind_def)
    next
      case (Inr x)
      obtain r2 w2 where 2: "f x w1 = (r2, w2)" by (cases "f x w1")
      from calls_withinD [OF assms(2) 2] obtain evs2 where
        3: "calls w2 = calls w1 @ evs2" "list_all Q evs2" by blast
      from Pair Inr 1 2 3 show ?thesis by (simp add: io_bind_def)
    qed
  qed
  then show ?thesis by (simp add: calls_within_def)
qed

lemma calls_within_catch:
  assumes "calls_within Q m" and "\<And>x. calls_within Q (h x)"
  shows "calls_within Q (io_catch m h)"
proof -
  have "\<exists>evs. calls (snd (io_catch m h w)) = calls w @ evs \<and> list_all Q evs" for w
  proof (cases "m w")
    case (Pair r w1)
    from calls_withinD [OF assms(1) Pair] obtain evs1 where
      1: "calls w1 = calls w @ evs1" "list_all Q evs1" by blast
    show ?thesis
    proof (cases r)
      case (Inr x)
      with Pair 1 show ?thesis by (simp add: io_catch_def)
    next
      case (Inl err)
      obtain r2 w2 where 2: "h err w1 = (r2, w2)" by (cases "h err w1")
      from calls_withinD [OF assms(2) 2] obtain evs2 where
        3: "calls w2 = calls w1 @ evs2" "list_all Q evs2" by blast
      from Pair Inl 1 2 3 show ?thesis by (simp add: io_catch_def)
    qed
  qed
  then show ?thesis by (simp add: calls_within_def)
qed

lemma calls_within_simple [simp]:
  "calls_within Q (io_return x)" "calls_within Q (io_throw err)"
  "calls_within Q (logger l msg)" "calls_within Q showSplash"
  "calls_within Q (readFileSync e p)"
  by (auto simp: calls_within_def io_return_def io_throw_def logger_def
      showSplash_def readFileSync_def split: option.splits)

lemma calls_within_record_call: "Q c \<Longrightarrow> calls_within Q (record_call c)"
  by (simp add: calls_within_def record_call_def)

lemma calls_within_after_record:
  assumes "Q c" and "\<And>w. calls (snd (k w)) = calls w"
  shows "calls_within Q (io_bind (record_call c) (\<lambda>_. k))"
proof -
  have "calls_within Q k"
    using assms(2) by (simp add: calls_within_def)
  moreover have "calls_within Q (record_call c)"
    using assms(1) by (rule calls_within_record_call)
  ultimately show ?thesis
    by (intro calls_within_bind)
qed

lemma calls_within_prims:
  "Q (WriteFile p c) \<Longrightarrow> calls_within Q (writeFileSync e p c)"
  "Q (Unlink p) \<Longrightarrow> calls_within Q (unlinkSync e p)"
  "Q (Mkdir p) \<Longrightarrow> calls_within Q (mkdirSync e p)"
  "Q (CopyFile src p) \<Longrightarrow> calls_within Q (copyFileSync e src p)"
  "Q (EsbuildBuild entry p) \<Longrightarrow> calls_within Q (esbuild_build e entry p)"
  "Q (JsConfuserObfuscate code) \<Longrightarrow> calls_within Q (JsConfuser_obfuscate e code)"
  "Q (Rcedit p ico) \<Longrightarrow> calls_within Q (rcedit e p ico)"
  "Q (PostjectInject p seg blob options) \<Longrightarrow> calls_within Q (postject_inject e p seg blob options)"
  unfolding writeFileSync_def unlinkSync_def mkdirSync_def copyFileSync_def esbuild_build_def
    JsConfuser_obfuscate_def rcedit_def postject_inject_def
  by (rule calls_within_after_record, assumption, simp split: option.splits sum.splits)+

lemma calls_within_spawnNode:
  "(\<And>fs. Q (Spawn ''node'' [''--experimental-sea-config'', p] fs)) \<Longrightarrow>
   calls_within Q (spawnNode e p)"
  by (auto simp: calls_within_def spawnNode_def Let_def
      split: proc_outcome.splits option.splits)

lemma atob_FUSE_literal:
  "atob FUSE_literal = Inr ''NODE_SEA_FUSE_fce680ab2cc467b6e072b8b5df1996b2''"
  by code_simp

lemma calls_within_world_if:
  assumes "calls_within Q m1" and "calls_within Q m2"
  shows "calls_within Q (\<lambda>w. if b w then m1 w else m2 w)"
  using assms by (simp add: calls_within_def)

lemma calls_within_obfuscateOutputFile:
  assumes "\<And>c. (\<forall>a b d x. c \<noteq> PostjectInject a b d x) \<Longrightarrow> Q c"
  shows "calls_within Q (obfuscateOutputFile e p)"
  unfolding obfuscateOutputFile_def
  by (intro calls_within_bind calls_within_prims calls_within_simple assms) simp_all

lemma calls_within_generateSEABlob:
  assumes "\<And>c. (\<forall>a b d x. c \<noteq> PostjectInject a b d x) \<Longrightarrow> Q c"
  shows "calls_within Q (generateSEABlob e cfg)"
proof -
  have u: "calls_within Q (unlinkSync e ''sea-config.json'')"
    by (rule calls_within_prims) (simp add: assms)
  have "calls_within Q (\<lambda>w. if \<not> existsSync w (sea_output cfg) then (Inl (Error (msg :: string)), w)
                              else unlinkSync e ''sea-config.json'' w)" for msg
    using u by (simp add: calls_within_def)
  then show ?thesis
    unfolding generateSEABlob_def Let_def
    by (intro calls_within_bind calls_within_prims calls_within_spawnNode assms)
       (simp_all add: split_def)
qed

lemma calls_within_createExecutableCopy:
  assumes "\<And>c. (\<forall>a b d x. c \<noteq> PostjectInject a b d x) \<Longrightarrow> Q c"
  shows "calls_within Q (createExecutableCopy e p)"
  unfolding createExecutableCopy_def Let_def
  by (intro calls_within_bind calls_within_prims assms) simp_all

lemma calls_within_setIcon:
  assumes "\<And>c. (\<forall>a b d x. c \<noteq> PostjectInject a b d x) \<Longrightarrow> Q c"
  shows "calls_within Q (setIcon e p ico)"
  unfolding setIcon_def
  by (intro calls_within_catch calls_within_prims calls_within_simple assms) simp_all

lemma calls_within_setExecutableIcon:
  assumes "\<And>c. (\<forall>a b d x. c \<noteq> PostjectInject a b d x) \<Longrightarrow> Q c"
  shows "calls_within Q (setExecutableIcon e p ico plat)"
  using calls_within_setIcon [of Q e p, OF assms]
  by (auto simp: calls_within_def setExecutableIcon_def logger_def split: sum.splits)

lemma calls_within_injectSEABlobIntoNodeExecutable:
  assumes "\<And>c. (\<forall>a b d x. c \<noteq> PostjectInject a b d x) \<Longrightarrow> Q c"
    and "\<And>blob. Q (PostjectInject exe ''NODE_SEA_BLOB'' blob
            \<lparr>sentinelFuse = ''NODE_SEA_FUSE_fce680ab2cc467b6e072b8b5df1996b2'',
             machoSegmentName = (if plat = ''macos'' then Some ''NODE_SEA'' else None)\<rparr>)"
  shows "calls_within Q (injectSEABlobIntoNodeExecutable e plat exe blobp)"
proof -
  have 1: "calls_within Q
     (io_bind (readFileSync e blobp) (\<lambda>seaBlobBuffer.
        io_bind
          (io_catch (postject_inject e exe ''NODE_SEA_BLOB'' seaBlobBuffer
             \<lparr>sentinelFuse = ''NODE_SEA_FUSE_fce680ab2cc467b6e072b8b5df1996b2'',
              machoSegmentName = (if plat = ''macos'' then Some ''NODE_SEA'' else None)\<rparr>)
             (\<lambda>err. io_throw (Error (''Error injecting SEA blob: '' @ message err))))
          (\<lambda>_. io_bind (unlinkSync e blobp) (\<lambda>_. unlinkSync e outputFile))))"
    by (intro calls_within_bind calls_within_catch calls_within_prims calls_within_simple assms)
       simp_all
  have 2: "calls_within Q (\<lambda>w. (Inl (Error (msg :: string)) :: error + unit, w))" for msg
    by (simp add: calls_within_def)
  show ?thesis
    unfolding injectSEABlobIntoNodeExecutable_def atob_FUSE_literal sum.case
    by (intro calls_within_bind calls_within_simple calls_within_world_if 1 2)
qed

subsection \<open>The arguments of the injector\<close>

lemma createExecutableCopy_Inr:
  "createExecutableCopy e p w = (Inr u, w') \<Longrightarrow>
     calls w' = calls w @ [Mkdir (path_dirname p), CopyFile (execPath e) p]"
  by (auto simp: createExecutableCopy_def mkdirSync_def copyFileSync_def io_bind_def
      record_call_def Let_def split: if_splits option.splits)

lemma main_try_calls:
  fixes e opt
  defines "exe \<equiv> getExecutableOutputPath (platform opt)"
  defines "options \<equiv> \<lparr>sentinelFuse = ''NODE_SEA_FUSE_fce680ab2cc467b6e072b8b5df1996b2'',
             machoSegmentName = (if platform opt = ''macos'' then Some ''NODE_SEA'' else None)\<rparr>"
  assumes run: "main_try e opt w = (r, w')"
  shows "\<exists>pre post. calls w' = calls w @ pre @ post \<and>
           (\<forall>a b d x. PostjectInject a b d x \<notin> set pre) \<and>
           (\<forall>a b d x. PostjectInject a b d x \<in> set post \<longrightarrow>
              a = exe \<and> b = ''NODE_SEA_BLOB'' \<and> x = options \<and>
              CopyFile (execPath e) exe \<in> set pre)"
proof -
  define P1 where "P1 =
     io_bind (bundleProject e (input opt)) (\<lambda>_.
     io_bind (logger LogInfo ''Bundle completed successfully'') (\<lambda>_.
     io_bind (if obfuscate opt then
                io_bind (obfuscateOutputFile e outputFile) (\<lambda>_.
                logger LogInfo ''Obfuscation completed successfully'')
              else io_return ()) (\<lambda>_.
     io_bind (generateSEABlob e seaConfig) (\<lambda>_.
     logger LogInfo ''SEA preparation blob generated successfully''))))"
  define P3 where "P3 =
     io_bind (logger LogInfo ''Executable copy created successfully'') (\<lambda>_.
     io_bind (setExecutableIcon e exe (icon opt) (platform opt)) (\<lambda>_.
     logger LogInfo ''Icon set successfully''))"
  define P4 where "P4 =
     io_bind (injectSEABlobIntoNodeExecutable e (platform opt) exe (sea_output seaConfig)) (\<lambda>_.
     logger LogInfo ''SEA blob injected successfully'')"
  define N where "N = (\<lambda>c. \<forall>a b d x. c \<noteq> PostjectInject a b d x)"
  define Q where "Q = (\<lambda>c. \<forall>a b d x. c = PostjectInject a b d x \<longrightarrow>
     a = exe \<and> b = ''NODE_SEA_BLOB'' \<and> x = options)"
  have mt: "main_try e opt =
     io_bind P1 (\<lambda>_. io_bind (createExecutableCopy e exe) (\<lambda>_. io_bind P3 (\<lambda>_. P4)))"
    by (simp add: main_try_def P1_def P3_def P4_def io_bind_assoc Let_def exe_def)
  have N: "(\<forall>a b d x. c \<noteq> PostjectInject a b d x) \<Longrightarrow> N c" for c
    by (simp add: N_def)
  have cP1: "calls_within N P1"
    unfolding P1_def bundleProject_def
    by (intro calls_within_bind calls_within_simple calls_within_obfuscateOutputFile
          calls_within_generateSEABlob calls_within_prims N)
       (simp_all add: calls_within_bind calls_within_obfuscateOutputFile N)
  have cC: "calls_within N (createExecutableCopy e exe)"
    by (intro calls_within_createExecutableCopy N)
  have cP3: "calls_within N P3"
    unfolding P3_def
    by (intro calls_within_bind calls_within_simple calls_within_setExecutableIcon N)
  have cP4: "calls_within Q P4"
    unfolding P4_def
    by (intro calls_within_bind calls_within_simple calls_within_injectSEABlobIntoNodeExecutable)
       (simp_all add: Q_def options_def)
  have noinj: "list_all N evs \<Longrightarrow> \<forall>a b d x. PostjectInject a b d x \<notin> set evs" for evs
    by (auto simp: list_all_iff N_def)
  obtain r1 w1 where 1: "P1 w = (r1, w1)" by (cases "P1 w")
  from calls_withinD [OF cP1 1] obtain e1 where e1: "calls w1 = calls w @ e1" "list_all N e1"
    by blast
  show ?thesis
  proof (cases r1)
    case (Inl err)
    with run 1 have "w' = w1" by (simp add: mt io_bind_def)
    with e1 noinj [OF e1(2)] show ?thesis
      by (intro exI [of _ e1] exI [of _ "[]"]) simp
  next
    case r1: (Inr u1)
    obtain r2 w2 where 2: "createExecutableCopy e exe w1 = (r2, w2)"
      by (cases "createExecutableCopy e exe w1")
    from calls_withinD [OF cC 2] obtain e2 where e2: "calls w2 = calls w1 @ e2" "list_all N e2"
      by blast
    show ?thesis
    proof (cases r2)
      case (Inl err)
      with run 1 r1 2 have "w' = w2" by (simp add: mt io_bind_def)
      with e1 e2 noinj [OF e1(2)] noinj [OF e2(2)] show ?thesis
        by (intro exI [of _ "e1 @ e2"] exI [of _ "[]"]) simp
    next
      case r2: (Inr u2)
      from createExecutableCopy_Inr 2 r2 e2
      have cp: "CopyFile (execPath e) exe \<in> set e2" by fastforce
      obtain r3 w3 where 3: "P3 w2 = (r3, w3)" by (cases "P3 w2")
      from calls_withinD [OF cP3 3] obtain e3 where e3: "calls w3 = calls w2 @ e3" "list_all N e3"
        by blast
      show ?thesis
      proof (cases r3)
        case (Inl err)
        with run 1 r1 2 r2 3 have "w' = w3" by (simp add: mt io_bind_def)
        with e1 e2 e3 noinj [OF e1(2)] noinj [OF e2(2)] noinj [OF e3(2)] show ?thesis
          by (intro exI [of _ "e1 @ e2 @ e3"] exI [of _ "[]"]) simp
      next
        case r3: (Inr u3)
        with run 1 r1 2 r2 3 have 4: "P4 w3 = (r, w')" by (simp add: mt io_bind_def)
        from calls_withinD [OF cP4 4] obtain e4 where
          e4: "calls w' = calls w3 @ e4" "list_all Q e4"
          by blast
        from e4(2) have "\<forall>a b d x. PostjectInject a b d x \<in> set e4 \<longrightarrow>
            a = exe \<and> b = ''NODE_SEA_BLOB'' \<and> x = options"
          by (auto simp: list_all_iff Q_def)
        with e1 e2 e3 e4 cp noinj [OF e1(2)] noinj [OF e2(2)] noinj [OF e3(2)] show ?thesis
          by - (rule exI [of _ "e1 @ e2 @ e3"], rule exI [of _ e4], fastforce)
      qed
    qed
  qed
qed

lemma sea_builder_calls:
  "calls (snd (sea_builder e c w)) = calls w \<or>
   (\<exists>opt. commander_parse c = Inr opt \<and>
      calls (snd (sea_builder e c w)) = calls (snd (main_try e opt (snd (showSplash w)))))"
  by (auto simp: sea_builder_def main_def io_bind_def showSplash_def logger_def
      split: sum.splits prod.splits)

lemma injectSEABlobIntoNodeExecutable_first_call:
  assumes "files w blobp = Some blob" and "\<not> denied e OpRead blobp"
  shows "take 1 (drop (length (calls w))
            (calls (snd (injectSEABlobIntoNodeExecutable e plat exe blobp w)))) =
         [PostjectInject exe ''NODE_SEA_BLOB'' blob
            \<lparr>sentinelFuse = ''NODE_SEA_FUSE_fce680ab2cc467b6e072b8b5df1996b2'',
             machoSegmentName = (if plat = ''macos'' then Some ''NODE_SEA'' else None)\<rparr>]"
proof -
  define options where "options =
     \<lparr>sentinelFuse = ''NODE_SEA_FUSE_fce680ab2cc467b6e072b8b5df1996b2'',
      machoSegmentName = (if plat = ''macos'' then Some ''NODE_SEA'' else None)\<rparr>"
  define w0 where "w0 = w\<lparr>logs := logs w @ [(LogInfo, ''Injecting SEA blob into '' @ exe)]\<rparr>"
  define K where "K = io_bind (unlinkSync e blobp) (\<lambda>_. unlinkSync e outputFile)"
  have eq: "injectSEABlobIntoNodeExecutable e plat exe blobp w =
     io_bind
       (io_catch (postject_inject e exe ''NODE_SEA_BLOB'' blob options)
          (\<lambda>err. io_throw (Error (''Error injecting SEA blob: '' @ message err))))
       (\<lambda>_. K) w0"
    using assms
    by (simp add: injectSEABlobIntoNodeExecutable_def atob_FUSE_literal logger_eq io_bind_def
        readFileSync_def existsSync_def options_def w0_def K_def)
  have "calls_within (\<lambda>_. True) K"
    unfolding K_def by (intro calls_within_bind calls_within_prims) simp_all
  then have K: "\<exists>evs. calls (snd (K v)) = calls v @ evs" for v
    by (auto simp: calls_within_def)
  show ?thesis
  proof (cases "injector e exe ''NODE_SEA_BLOB'' blob options (files w0)")
    case (Inl err)
    then show ?thesis
      unfolding eq options_def [symmetric]
      by (simp add: io_bind_def io_catch_def io_throw_def postject_inject_eq w0_def)
  next
    case (Inr exe')
    from K [of "w0\<lparr>calls := calls w0 @ [PostjectInject exe ''NODE_SEA_BLOB'' blob options],
                    files := (files w0)(exe \<mapsto> exe')\<rparr>"]
    obtain evs where "calls (snd (K (w0\<lparr>calls := calls w0 @ [PostjectInject exe ''NODE_SEA_BLOB'' blob options],
                    files := (files w0)(exe \<mapsto> exe')\<rparr>))) =
        calls w0 @ PostjectInject exe ''NODE_SEA_BLOB'' blob options # evs"
      by auto
    with Inr show ?thesis
      unfolding eq options_def [symmetric]
      by (simp add: io_bind_def io_catch_def postject_inject_eq w0_def)
  qed
qed

text \<open>
  C3. The embedded base64 literal decodes to the text
  \<open>NODE_SEA_FUSE_fce680ab2cc467b6e072b8b5df1996b2\<close>. Every call of the injector that a run of the
  program makes has these arguments: the path of the executable copy for the platform
  option (the copy was made earlier in the same run), the segment name \<open>NODE_SEA_BLOB\<close>, the
  decoded text unchanged as the sentinel, and the segment hint \<open>NODE_SEA\<close> exactly when the
  platform option is \<open>macos\<close>, no hint for any other value. When the injection stage finds
  the blob file and can read it, its first call is that injector call, with the content of
  the blob file.
\<close>

theorem injector_arguments:
  "atob FUSE_literal = Inr ''NODE_SEA_FUSE_fce680ab2cc467b6e072b8b5df1996b2'' \<and>
   (\<forall>a b d x.
      PostjectInject a b d x \<in> set (drop (length (calls w)) (calls (snd (sea_builder e c w)))) \<longrightarrow>
      (\<exists>plat. cli_platform c = Some plat \<and>
         a = getExecutableOutputPath plat \<and>
         b = ''NODE_SEA_BLOB'' \<and>
         sentinelFuse x = ''NODE_SEA_FUSE_fce680ab2cc467b6e072b8b5df1996b2'' \<and>
         machoSegmentName x = (if plat = ''macos'' then Some ''NODE_SEA'' else None) \<and>
         (\<exists>pre post.
            drop (length (calls w)) (calls (snd (sea_builder e c w))) = pre @ post \<and>
            CopyFile (execPath e) a \<in> set pre \<and>
            PostjectInject a b d x \<in> set post))) \<and>
   (files w1 blobp = Some blob \<and> \<not> denied e OpRead blobp \<longrightarrow>
      take 1 (drop (length (calls w1))
        (calls (snd (injectSEABlobIntoNodeExecutable e plat1 exe blobp w1)))) =
      [PostjectInject exe ''NODE_SEA_BLOB'' blob
         \<lparr>sentinelFuse = ''NODE_SEA_FUSE_fce680ab2cc467b6e072b8b5df1996b2'',
          machoSegmentName = (if plat1 = ''macos'' then Some ''NODE_SEA'' else None)\<rparr>])"
proof (intro conjI allI impI)
  show "atob FUSE_literal = Inr ''NODE_SEA_FUSE_fce680ab2cc467b6e072b8b5df1996b2''"
    by (rule atob_FUSE_literal)
next
  fix a b d x
  assume inj: "PostjectInject a b d x \<in>
    set (drop (length (calls w)) (calls (snd (sea_builder e c w))))"
  then have "calls (snd (sea_builder e c w)) \<noteq> calls w" by auto
  with sea_builder_calls [of e c w] obtain opt where
    opt: "commander_parse c = Inr opt" and
    eq: "calls (snd (sea_builder e c w)) = calls (snd (main_try e opt (snd (showSplash w))))"
    by blast
  obtain r w' where run: "main_try e opt (snd (showSplash w)) = (r, w')"
    by (cases "main_try e opt (snd (showSplash w))")
  have cs: "calls (snd (showSplash w)) = calls w" by (simp add: showSplash_def)
  from main_try_calls [OF run] obtain pre post where
    pp: "calls w' = calls w @ pre @ post"
      "\<forall>a b d x. PostjectInject a b d x \<notin> set pre"
      "\<forall>a b d x. PostjectInject a b d x \<in> set post \<longrightarrow>
         a = getExecutableOutputPath (platform opt) \<and> b = ''NODE_SEA_BLOB'' \<and>
         x = \<lparr>sentinelFuse = ''NODE_SEA_FUSE_fce680ab2cc467b6e072b8b5df1996b2'',
              machoSegmentName = (if platform opt = ''macos'' then Some ''NODE_SEA'' else None)\<rparr> \<and>
         CopyFile (execPath e) (getExecutableOutputPath (platform opt)) \<in> set pre"
    unfolding cs by blast
  from inj eq run pp(1) have "PostjectInject a b d x \<in> set (pre @ post)" by simp
  with pp(2) have inpost: "PostjectInject a b d x \<in> set post" by auto
  with pp(3) have args: "a = getExecutableOutputPath (platform opt)" "b = ''NODE_SEA_BLOB''"
    "x = \<lparr>sentinelFuse = ''NODE_SEA_FUSE_fce680ab2cc467b6e072b8b5df1996b2'',
          machoSegmentName = (if platform opt = ''macos'' then Some ''NODE_SEA'' else None)\<rparr>"
    "CopyFile (execPath e) (getExecutableOutputPath (platform opt)) \<in> set pre"
    by blast+
  have dr: "drop (length (calls w)) (calls (snd (sea_builder e c w))) = pre @ post"
    using eq run pp(1) by simp
  from commander_parse_Inr [OF opt] have pl: "cli_platform c = Some (platform opt)" by simp
  show "\<exists>plat. cli_platform c = Some plat \<and>
         a = getExecutableOutputPath plat \<and>
         b = ''NODE_SEA_BLOB'' \<and>
         sentinelFuse x = ''NODE_SEA_FUSE_fce680ab2cc467b6e072b8b5df1996b2'' \<and>
         machoSegmentName x = (if plat = ''macos'' then Some ''NODE_SEA'' else None) \<and>
         (\<exists>pre post.
            drop (length (calls w)) (calls (snd (sea_builder e c w))) = pre @ post \<and>
            CopyFile (execPath e) a \<in> set pre \<and>
            PostjectInject a b d x \<in> set post)"
  proof (intro exI [of _ "platform opt"] conjI)
    show "\<exists>pre post.
            drop (length (calls w)) (calls (snd (sea_builder e c w))) = pre @ post \<and>
            CopyFile (execPath e) a \<in> set pre \<and>
            PostjectInject a b d x \<in> set post"
      using dr args(4) inpost unfolding args(1) [symmetric] by blast
  qed (use pl args in simp_all)
next
  assume "files w1 blobp = Some blob \<and> \<not> denied e OpRead blobp"
  then show "take 1 (drop (length (calls w1))
        (calls (snd (injectSEABlobIntoNodeExecutable e plat1 exe blobp w1)))) =
      [PostjectInject exe ''NODE_SEA_BLOB'' blob
         \<lparr>sentinelFuse = ''NODE_SEA_FUSE_fce680ab2cc467b6e072b8b5df1996b2'',
          machoSegmentName = (if plat1 = ''macos'' then Some ''NODE_SEA'' else None)\<rparr>]"
    by (intro injectSEABlobIntoNodeExecutable_first_call) simp_all
qed

lemma path_dirname_dist:
  "path_dirname ''dist/out'' = ''dist''" "path_dirname ''dist/out.exe'' = ''dist''"
  by (simp_all add: path_dirname_def isAbsolute_def)

lemmas run_defs = path_dirname_dist
  sea_builder_def main_def main_try_def commander_parse_def semver_gte_def showSplash_def
  bundleProject_def obfuscateOutputFile_def generateSEABlob_def spawnNode_def
  createExecutableCopy_def setExecutableIcon_def setIcon_def
  injectSEABlobIntoNodeExecutable_def atob_FUSE_literal getExecutableOutputPath_eq
  esbuild_build_def JsConfuser_obfuscate_def rcedit_def postject_inject_def
  writeFileSync_def readFileSync_def unlinkSync_def mkdirSync_def copyFileSync_def existsSync_def
  io_bind_def io_catch_def io_return_def io_throw_def record_call_def logger_def
  truthy_def outputFile_def seaConfig_def Let_def

theorem injector_arguments_witness:
  "PostjectInject ''dist/out'' ''NODE_SEA_BLOB'' ''blob:obf:bundle:console.log(1)''
     \<lparr>sentinelFuse = ''NODE_SEA_FUSE_fce680ab2cc467b6e072b8b5df1996b2'',
      machoSegmentName = Some ''NODE_SEA''\<rparr>
     \<in> set (drop (length (calls demo_world))
           (calls (snd (sea_builder demo_env (demo_cli ''macos'') demo_world)))) \<and>
   cli_platform (demo_cli ''macos'') = Some ''macos'' \<and>
   getExecutableOutputPath ''macos'' = ''dist/out'' \<and>
   (\<exists>pre post.
      drop (length (calls demo_world))
        (calls (snd (sea_builder demo_env (demo_cli ''macos'') demo_world))) = pre @ post \<and>
      CopyFile (execPath demo_env) ''dist/out'' \<in> set pre \<and>
      PostjectInject ''dist/out'' ''NODE_SEA_BLOB'' ''blob:obf:bundle:console.log(1)''
        \<lparr>sentinelFuse = ''NODE_SEA_FUSE_fce680ab2cc467b6e072b8b5df1996b2'',
         machoSegmentName = Some ''NODE_SEA''\<rparr> \<in> set post)"
proof -
  have h: "PostjectInject ''dist/out'' ''NODE_SEA_BLOB'' ''blob:obf:bundle:console.log(1)''
     \<lparr>sentinelFuse = ''NODE_SEA_FUSE_fce680ab2cc467b6e072b8b5df1996b2'',
      machoSegmentName = Some ''NODE_SEA''\<rparr>
     \<in> set (drop (length (calls demo_world))
           (calls (snd (sea_builder demo_env (demo_cli ''macos'') demo_world))))"
    by (simp add: run_defs demo_env_def demo_cli_def demo_world_def)
  have p: "cli_platform (demo_cli ''macos'') = Some ''macos''"
    by (simp add: demo_cli_def)
  have g: "getExecutableOutputPath ''macos'' = ''dist/out''"
    by (simp add: getExecutableOutputPath_eq)
  note injector_arguments [of demo_world demo_env "demo_cli ''macos''",
      THEN conjunct2, THEN conjunct1, rule_format, OF h]
  then have "\<exists>pre post.
      drop (length (calls demo_world))
        (calls (snd (sea_builder demo_env (demo_cli ''macos'') demo_world))) = pre @ post \<and>
      CopyFile (execPath demo_env) ''dist/out'' \<in> set pre \<and>
      PostjectInject ''dist/out'' ''NODE_SEA_BLOB'' ''blob:obf:bundle:console.log(1)''
        \<lparr>sentinelFuse = ''NODE_SEA_FUSE_fce680ab2cc467b6e072b8b5df1996b2'',
         machoSegmentName = Some ''NODE_SEA''\<rparr> \<in> set post"
    by (elim exE conjE) (intro exI conjI; assumption)
  with h p g show ?thesis by (intro conjI)
qed

subsection \<open>The default icon without APPDATA\<close>

lemma calls_within_bind_fail:
  assumes "calls_within Q m" and "\<And>w. isl (fst (m w))"
  shows "calls_within Q (io_bind m f)"
proof -
  have "calls (snd (io_bind m f w)) = calls (snd (m w))" for w
    using assms(2) [of w] by (cases "m w") (auto simp: io_bind_def split: sum.splits)
  with assms(1) show ?thesis by (simp add: calls_within_def)
qed

lemma setExecutableIcon_no_APPDATA:
  assumes "\<not> truthy ico" and "APPDATA e = None"
  shows "setExecutableIcon e exe ico ''win32'' w =
     (Inl (Error ''The \"path\" argument must be of type string. Received undefined''), w)"
  using assms by (simp add: setExecutableIcon_def path_join_def)

lemma main_try_no_APPDATA:
  assumes "\<not> truthy (icon opt)" and "platform opt = ''win32''" and "APPDATA e = None"
  shows "isl (fst (main_try e opt w))"
proof (rule ccontr)
  assume "\<not> isl (fst (main_try e opt w))"
  moreover obtain r w' where "main_try e opt w = (r, w')"
    by (cases "main_try e opt w")
  ultimately have "main_try e opt w = (Inr (), w')"
    by (cases r) simp_all
  then obtain w7 w8 where
    "setExecutableIcon e (getExecutableOutputPath (platform opt)) (icon opt) (platform opt) w7
       = (Inr (), w8)"
    unfolding main_try_def Let_def
    by (fastforce dest!: io_bind_InrD simp: logger_eq)
  with setExecutableIcon_no_APPDATA [OF assms(1,3)] assms(2) show False by simp
qed

lemma main_try_no_APPDATA_calls:
  assumes "\<not> truthy (icon opt)" and "platform opt = ''win32''" and "APPDATA e = None"
  shows "calls_within (\<lambda>c. \<forall>a b d x. c \<noteq> PostjectInject a b d x) (main_try e opt)"
proof -
  let ?N = "\<lambda>c. \<forall>a b d x. c \<noteq> PostjectInject a b d x"
  have tail: "calls_within ?N
      (io_bind (setExecutableIcon e (getExecutableOutputPath (platform opt)) (icon opt)
         (platform opt)) f)" for f
  proof (rule calls_within_bind_fail)
    show "calls_within ?N (setExecutableIcon e (getExecutableOutputPath (platform opt))
        (icon opt) (platform opt))"
      by (rule calls_within_setExecutableIcon) simp
    show "isl (fst (setExecutableIcon e (getExecutableOutputPath (platform opt)) (icon opt)
        (platform opt) w))" for w
      using setExecutableIcon_no_APPDATA [OF assms(1,3)] assms(2) by simp
  qed
  show ?thesis
    unfolding main_try_def Let_def bundleProject_def
    by (intro tail calls_within_bind calls_within_simple calls_within_obfuscateOutputFile
          calls_within_generateSEABlob calls_within_createExecutableCopy calls_within_prims)
       (simp_all add: calls_within_bind calls_within_obfuscateOutputFile)
qed

text \<open>
  C10. With no icon option (or an empty one), the platform option \<open>win32\<close> and the
  \<open>APPDATA\<close> environment variable unset, the icon stage throws the \<open>TypeError\<close> of
  \<open>path.join\<close> and leaves the world as it found it: nothing has been called, so no icon
  application was attempted. Every run of the program with these inputs exits with
  status 1, and none of them calls the injector.
\<close>

theorem default_icon_without_APPDATA_aborts:
  assumes "\<not> truthy (cli_icon c)" and "cli_platform c = Some ''win32''"
    and "APPDATA e = None" and "2 \<le> argv_length c"
  shows "setExecutableIcon e exe (cli_icon c) ''win32'' w1 =
           (Inl (Error ''The \"path\" argument must be of type string. Received undefined''), w1) \<and>
         fst (sea_builder e c w) = 1 \<and>
         (\<forall>a b d x. PostjectInject a b d x \<notin>
            set (drop (length (calls w)) (calls (snd (sea_builder e c w)))))"
proof (intro conjI)
  show "setExecutableIcon e exe (cli_icon c) ''win32'' w1 =
           (Inl (Error ''The \"path\" argument must be of type string. Received undefined''), w1)"
    using assms(1,3) by (rule setExecutableIcon_no_APPDATA)
next
  show "fst (sea_builder e c w) = 1"
  proof (cases "\<not> semver_gte (nodeVersion e) (19, 9, 0) \<or> cli_input c = None")
    case True
    with assms(2,4) show ?thesis
      by (auto simp: sea_builder_def commander_parse_def logger_def split: option.splits)
  next
    case False
    then obtain i where i: "cli_input c = Some i" and v: "semver_gte (nodeVersion e) (19, 9, 0)"
      by auto
    define opt where "opt = \<lparr>input = i, icon = cli_icon c, platform = ''win32'',
      obfuscate = cli_obfuscate c\<rparr>"
    have sb: "sea_builder e c w = main e opt w"
      using i v assms(2,4) by (simp add: sea_builder_def commander_parse_def opt_def)
    have "isl (fst (main_try e opt (snd (showSplash w))))"
      by (rule main_try_no_APPDATA) (simp_all add: opt_def assms)
    then show ?thesis
      unfolding sb
      by (auto simp: main_def io_bind_def showSplash_def isl_def split: prod.splits sum.splits)
  qed
next
  show "\<forall>a b d x. PostjectInject a b d x \<notin>
            set (drop (length (calls w)) (calls (snd (sea_builder e c w))))"
  proof (cases "calls (snd (sea_builder e c w)) = calls w")
    case True
    then show ?thesis by simp
  next
    case False
    with sea_builder_calls [of e c w] obtain opt where
      opt: "commander_parse c = Inr opt" and
      eq: "calls (snd (sea_builder e c w)) = calls (snd (main_try e opt (snd (showSplash w))))"
      by blast
    from commander_parse_Inr [OF opt] assms
    have o: "\<not> truthy (icon opt)" "platform opt = ''win32''" by simp_all
    obtain r w' where run: "main_try e opt (snd (showSplash w)) = (r, w')"
      by (cases "main_try e opt (snd (showSplash w))")
    from calls_withinD [OF main_try_no_APPDATA_calls [OF o assms(3)] run]
    obtain evs where "calls w' = calls (snd (showSplash w)) @ evs"
      and "list_all (\<lambda>c. \<forall>a b d x. c \<noteq> PostjectInject a b d x) evs"
      by blast
    then show ?thesis
      unfolding eq run by (auto simp: showSplash_def list_all_iff)
  qed
qed

theorem default_icon_without_APPDATA_aborts_witness:
  "\<not> truthy (cli_icon (demo_cli ''win32'')) \<and>
   cli_platform (demo_cli ''win32'') = Some ''win32'' \<and>
   APPDATA demo_env = None \<and>
   2 \<le> argv_length (demo_cli ''win32'') \<and>
   setExecutableIcon demo_env ''dist/out.exe'' (cli_icon (demo_cli ''win32'')) ''win32'' demo_world =
     (Inl (Error ''The \"path\" argument must be of type string. Received undefined''), demo_world) \<and>
   fst (sea_builder demo_env (demo_cli ''win32'') demo_world) = 1"
proof -
  have h: "\<not> truthy (cli_icon (demo_cli ''win32''))"
    "cli_platform (demo_cli ''win32'') = Some ''win32''"
    "APPDATA demo_env = None"
    "2 \<le> argv_length (demo_cli ''win32'')"
    by (simp_all add: demo_cli_def demo_env_def truthy_def)
  from default_icon_without_APPDATA_aborts [OF h, of "''dist/out.exe''" demo_world demo_world] h
  show ?thesis by simp
qed

text \<open>
  C5. The icon stage can abort the pipeline. On a host without \<open>APPDATA\<close>, the run for
  the platform \<open>win32\<close> with no icon option exits with status 1 from the icon stage: the log
  ends with the unexpected-error entry for the \<open>TypeError\<close> of \<open>path.join\<close>, the
  executable copy is there without a blob, and the blob file is left behind.
\<close>

theorem icon_stage_aborts_run_example:
  "fst (sea_builder demo_env (demo_cli ''win32'') demo_world) = 1 \<and>
   last (logs (snd (sea_builder demo_env (demo_cli ''win32'') demo_world))) =
     (LogError, ''An unexpected error occurred: The \"path\" argument must be of type string. Received undefined'') \<and>
   files (snd (sea_builder demo_env (demo_cli ''win32'') demo_world)) ''dist/out.exe'' = Some ''NODE'' \<and>
   files (snd (sea_builder demo_env (demo_cli ''win32'') demo_world)) ''sea-prep.blob'' =
     Some ''blob:obf:bundle:console.log(1)''"
  by (simp add: run_defs path_join_def demo_env_def demo_cli_def demo_world_def)

subsection \<open>The icon stage\<close>

lemma rcedit_eq:
  "rcedit e exe ico w =
     (case icon_editor e exe ico (files w) of
        Inl err \<Rightarrow> (Inl err, w\<lparr>calls := calls w @ [Rcedit exe ico]\<rparr>)
      | Inr exe' \<Rightarrow> (Inr (), w\<lparr>calls := calls w @ [Rcedit exe ico],
                                files := (files w)(exe \<mapsto> exe')\<rparr>))"
  by (simp add: rcedit_def io_bind_def record_call_def split: sum.splits)

lemma setIcon_eq:
  "setIcon e exe p w =
     (case icon_editor e exe (path_resolve (cwd e) p) (files w) of
        Inl err \<Rightarrow>
          (Inr (), w\<lparr>calls := calls w @ [Rcedit exe (path_resolve (cwd e) p)],
                      logs := logs w @ [(LogError, ''Error setting icon: '' @ message err)]\<rparr>)
      | Inr exe' \<Rightarrow>
          (Inr (), w\<lparr>calls := calls w @ [Rcedit exe (path_resolve (cwd e) p)],
                      files := (files w)(exe \<mapsto> exe')\<rparr>))"
  by (simp add: setIcon_def io_catch_def rcedit_eq logger_def split: sum.splits)

text \<open>
  C4. The icon stage does this, for every combination of its inputs. An icon
  path that is given and names an existing file, on \<open>win32\<close>: the icon editor is called on
  the target executable with that path resolved against the working directory. The same
  on any other platform: a warning is logged and nothing else happens. An icon path that is
  given but names no existing file, on any platform: only the informational skip is
  logged. No icon (or an empty path) on \<open>win32\<close> with \<open>APPDATA\<close> set: the icon editor is
  called with \<open>default.ico\<close> under \<open>APPDATA/npm/node_modules/sea-builder\<close>, without a
  check that the file exists. No icon on any other platform: only the informational skip is
  logged. Calling the icon editor replaces the executable when the editor succeeds and
  logs the editor's error when it fails; either way the stage returns normally.
\<close>

theorem setExecutableIcon_policy:
  "(truthy ico \<and> existsSync w (the ico) \<and> plat = ''win32'' \<longrightarrow>
      setExecutableIcon e exe ico plat w = setIcon e exe (the ico) w) \<and>
   (truthy ico \<and> existsSync w (the ico) \<and> plat \<noteq> ''win32'' \<longrightarrow>
      setExecutableIcon e exe ico plat w =
        (Inr (), w\<lparr>logs := logs w @ [(LogWarn, ''Icon setting is only supported on Windows.'')]\<rparr>)) \<and>
   (truthy ico \<and> \<not> existsSync w (the ico) \<longrightarrow>
      setExecutableIcon e exe ico plat w =
        (Inr (), w\<lparr>logs := logs w @
           [(LogInfo, ''No icon specified or not supported on this platform.'')]\<rparr>)) \<and>
   (\<not> truthy ico \<and> plat = ''win32'' \<and> APPDATA e = Some dir \<longrightarrow>
      (\<exists>iconPath.
         path_join [Some dir, Some ''npm'', Some ''node_modules'', Some ''sea-builder'',
                    Some ''default.ico''] = Inr iconPath \<and>
         setExecutableIcon e exe ico plat w = setIcon e exe iconPath w)) \<and>
   (\<not> truthy ico \<and> plat \<noteq> ''win32'' \<longrightarrow>
      setExecutableIcon e exe ico plat w =
        (Inr (), w\<lparr>logs := logs w @
           [(LogInfo, ''No icon specified or not supported on this platform.'')]\<rparr>)) \<and>
   setIcon e exe p w =
     (case icon_editor e exe (path_resolve (cwd e) p) (files w) of
        Inl err \<Rightarrow>
          (Inr (), w\<lparr>calls := calls w @ [Rcedit exe (path_resolve (cwd e) p)],
                      logs := logs w @ [(LogError, ''Error setting icon: '' @ message err)]\<rparr>)
      | Inr exe' \<Rightarrow>
          (Inr (), w\<lparr>calls := calls w @ [Rcedit exe (path_resolve (cwd e) p)],
                      files := (files w)(exe \<mapsto> exe')\<rparr>))"
proof (intro conjI impI)
  show "setIcon e exe p w =
     (case icon_editor e exe (path_resolve (cwd e) p) (files w) of
        Inl err \<Rightarrow>
          (Inr (), w\<lparr>calls := calls w @ [Rcedit exe (path_resolve (cwd e) p)],
                      logs := logs w @ [(LogError, ''Error setting icon: '' @ message err)]\<rparr>)
      | Inr exe' \<Rightarrow>
          (Inr (), w\<lparr>calls := calls w @ [Rcedit exe (path_resolve (cwd e) p)],
                      files := (files w)(exe \<mapsto> exe')\<rparr>))"
    by (rule setIcon_eq)
next
  assume "\<not> truthy ico \<and> plat = ''win32'' \<and> APPDATA e = Some dir"
  then show "\<exists>iconPath.
         path_join [Some dir, Some ''npm'', Some ''node_modules'', Some ''sea-builder'',
                    Some ''default.ico''] = Inr iconPath \<and>
         setExecutableIcon e exe ico plat w = setIcon e exe iconPath w"
    by (simp add: setExecutableIcon_def path_join_def Let_def)
qed (simp_all add: setExecutableIcon_def logger_def)

theorem setExecutableIcon_policy_witness:
  "truthy (Some ''/work/icon.ico'') \<and> existsSync icon_world (the (Some ''/work/icon.ico'')) \<and>
   files (snd (setExecutableIcon demo_env ''dist/out.exe'' (Some ''/work/icon.ico'') ''win32'' icon_world))
     ''dist/out.exe'' = Some ''NODE+icon:ICO'' \<and>
   logs (snd (setExecutableIcon demo_env ''dist/out'' (Some ''/work/icon.ico'') ''linux'' icon_world)) =
     [(LogWarn, ''Icon setting is only supported on Windows.'')] \<and>
   \<not> existsSync icon_world (the (Some ''icon.ico'')) \<and>
   logs (snd (setExecutableIcon demo_env ''dist/out.exe'' (Some ''icon.ico'') ''win32'' icon_world)) =
     [(LogInfo, ''No icon specified or not supported on this platform.'')] \<and>
   \<not> truthy None \<and>
   logs (snd (setExecutableIcon demo_env ''dist/out'' None ''linux'' icon_world)) =
     [(LogInfo, ''No icon specified or not supported on this platform.'')] \<and>
   APPDATA win_env = Some ''/appdata'' \<and>
   \<not> existsSync icon_world ''/appdata/npm/node_modules/sea-builder/default.ico'' \<and>
   calls (snd (setExecutableIcon win_env ''dist/out.exe'' None ''win32'' icon_world)) =
     [Rcedit ''dist/out.exe'' ''/appdata/npm/node_modules/sea-builder/default.ico''] \<and>
   logs (snd (setExecutableIcon win_env ''dist/out.exe'' None ''win32'' icon_world)) =
     [(LogError, ''Error setting icon: rcedit: no icon'')]"
  using setExecutableIcon_policy
          [of "Some ''/work/icon.ico''" icon_world "''win32''" demo_env "''dist/out.exe''" "[]" "''/work/icon.ico''"]
        setExecutableIcon_policy
          [of "Some ''/work/icon.ico''" icon_world "''linux''" demo_env "''dist/out''"]
        setExecutableIcon_policy
          [of "Some ''icon.ico''" icon_world "''win32''" demo_env "''dist/out.exe''"]
        setExecutableIcon_policy
          [of None icon_world "''linux''" demo_env "''dist/out''"]
        setExecutableIcon_policy
          [of None icon_world "''win32''" win_env "''dist/out.exe''" "''/appdata''"
              "''/appdata/npm/node_modules/sea-builder/default.ico''"]
  by (simp add: truthy_def existsSync_def icon_world_def demo_env_def win_env_def
      path_resolve_def path_join_def path_normalize_def normalizeString_def norm_step_def
      isAbsolute_def Let_def)

text \<open>
  C4, where the policy table of the specification does not hold: with the icon option
  \<open>icon.ico\<close>, no such file on disk and the platform \<open>win32\<close>, the icon stage calls
  nothing and changes no file; it logs the informational skip. On \<open>linux\<close> the same
  input logs the informational skip, not the warning.
\<close>

theorem icon_given_but_missing_counterexample:
  "truthy (Some ''icon.ico'') \<and>
   calls (snd (setExecutableIcon demo_env ''dist/out.exe'' (Some ''icon.ico'') ''win32'' demo_world)) = [] \<and>
   files (snd (setExecutableIcon demo_env ''dist/out.exe'' (Some ''icon.ico'') ''win32'' demo_world)) =
     files demo_world \<and>
   logs (snd (setExecutableIcon demo_env ''dist/out.exe'' (Some ''icon.ico'') ''win32'' demo_world)) =
     [(LogInfo, ''No icon specified or not supported on this platform.'')] \<and>
   logs (snd (setExecutableIcon demo_env ''dist/out'' (Some ''icon.ico'') ''linux'' demo_world)) =
     [(LogInfo, ''No icon specified or not supported on this platform.'')]"
  by (simp add: setExecutableIcon_def truthy_def existsSync_def logger_def demo_world_def)

subsection \<open>Cleanup after the injection\<close>

lemma injectSEABlobIntoNodeExecutable_injected:
  assumes "files w blobp = Some blob" and "\<not> denied e OpRead blobp"
    and "injector e exe ''NODE_SEA_BLOB'' blob
           \<lparr>sentinelFuse = ''NODE_SEA_FUSE_fce680ab2cc467b6e072b8b5df1996b2'',
            machoSegmentName = (if plat = ''macos'' then Some ''NODE_SEA'' else None)\<rparr>
           (files w) = Inr exe'"
  shows "injectSEABlobIntoNodeExecutable e plat exe blobp w =
     io_bind (unlinkSync e blobp) (\<lambda>_. unlinkSync e outputFile)
       (w\<lparr>logs := logs w @ [(LogInfo, ''Injecting SEA blob into '' @ exe)],
          calls := calls w @
            [PostjectInject exe ''NODE_SEA_BLOB'' blob
               \<lparr>sentinelFuse = ''NODE_SEA_FUSE_fce680ab2cc467b6e072b8b5df1996b2'',
                machoSegmentName = (if plat = ''macos'' then Some ''NODE_SEA'' else None)\<rparr>],
          files := (files w)(exe \<mapsto> exe')\<rparr>)"
proof -
  define options where "options =
     \<lparr>sentinelFuse = ''NODE_SEA_FUSE_fce680ab2cc467b6e072b8b5df1996b2'',
      machoSegmentName = (if plat = ''macos'' then Some ''NODE_SEA'' else None)\<rparr>"
  from assms show ?thesis
    unfolding options_def [symmetric]
    by (simp add: injectSEABlobIntoNodeExecutable_def atob_FUSE_literal logger_eq io_bind_def
        io_catch_def readFileSync_def existsSync_def postject_inject_eq
        flip: options_def)
qed

lemma main_exit_status:
  "fst (main e opt w) = 0 \<or>
   fst (main e opt w) = 1 \<and>
   (\<exists>msg. last (logs (snd (main e opt w))) =
      (LogError, ''An unexpected error occurred: '' @ msg))"
  by (auto simp: main_def logger_def split: prod.splits sum.splits)

text \<open>
  C1. After a successful injection the stage deletes \<open>sea-prep.blob\<close> and then
  \<open>out.js\<close>; the injected executable stays as the injector left it. A deletion that fails
  is not caught: the stage throws the error of \<open>unlinkSync\<close> (and when the first deletion
  fails the second is not attempted), so the stage returns normally only when both files
  were deleted. For the whole pipeline: a run of \<open>main\<close> that ends with status 0 has deleted
  both files, and every other run ends with status 1 after logging the unexpected error.
\<close>

theorem cleanup_failure_aborts:
  assumes "files w ''sea-prep.blob'' = Some blob" and "\<not> denied e OpRead ''sea-prep.blob''"
    and "injector e (getExecutableOutputPath plat) ''NODE_SEA_BLOB'' blob
           \<lparr>sentinelFuse = ''NODE_SEA_FUSE_fce680ab2cc467b6e072b8b5df1996b2'',
            machoSegmentName = (if plat = ''macos'' then Some ''NODE_SEA'' else None)\<rparr>
           (files w) = Inr exe'"
  shows "files (snd (injectSEABlobIntoNodeExecutable e plat (getExecutableOutputPath plat)
             ''sea-prep.blob'' w)) (getExecutableOutputPath plat) = Some exe' \<and>
    (denied e OpUnlink ''sea-prep.blob'' \<longrightarrow>
       fst (injectSEABlobIntoNodeExecutable e plat (getExecutableOutputPath plat)
              ''sea-prep.blob'' w) =
         Inl (Error (''EPERM: operation not permitted, unlink '' @ quoted ''sea-prep.blob'')) \<and>
       files (snd (injectSEABlobIntoNodeExecutable e plat (getExecutableOutputPath plat)
              ''sea-prep.blob'' w)) ''sea-prep.blob'' = Some blob \<and>
       files (snd (injectSEABlobIntoNodeExecutable e plat (getExecutableOutputPath plat)
              ''sea-prep.blob'' w)) ''out.js'' = files w ''out.js'' \<and>
       last (calls (snd (injectSEABlobIntoNodeExecutable e plat (getExecutableOutputPath plat)
              ''sea-prep.blob'' w))) = Unlink ''sea-prep.blob'') \<and>
    (\<not> denied e OpUnlink ''sea-prep.blob'' \<longrightarrow>
       files (snd (injectSEABlobIntoNodeExecutable e plat (getExecutableOutputPath plat)
              ''sea-prep.blob'' w)) ''sea-prep.blob'' = None \<and>
       last (calls (snd (injectSEABlobIntoNodeExecutable e plat (getExecutableOutputPath plat)
              ''sea-prep.blob'' w))) = Unlink ''out.js'' \<and>
       (files w ''out.js'' = None \<longrightarrow>
          fst (injectSEABlobIntoNodeExecutable e plat (getExecutableOutputPath plat)
                 ''sea-prep.blob'' w) =
            Inl (Error (''ENOENT: no such file or directory, unlink '' @ quoted ''out.js''))) \<and>
       (files w ''out.js'' \<noteq> None \<and> denied e OpUnlink ''out.js'' \<longrightarrow>
          fst (injectSEABlobIntoNodeExecutable e plat (getExecutableOutputPath plat)
                 ''sea-prep.blob'' w) =
            Inl (Error (''EPERM: operation not permitted, unlink '' @ quoted ''out.js'')) \<and>
          files (snd (injectSEABlobIntoNodeExecutable e plat (getExecutableOutputPath plat)
                 ''sea-prep.blob'' w)) ''out.js'' = files w ''out.js'') \<and>
       (files w ''out.js'' \<noteq> None \<and> \<not> denied e OpUnlink ''out.js'' \<longrightarrow>
          fst (injectSEABlobIntoNodeExecutable e plat (getExecutableOutputPath plat)
                 ''sea-prep.blob'' w) = Inr () \<and>
          files (snd (injectSEABlobIntoNodeExecutable e plat (getExecutableOutputPath plat)
                 ''sea-prep.blob'' w)) ''out.js'' = None)) \<and>
    (fst (main e opt w0) = 0 \<longrightarrow>
       files (snd (main e opt w0)) ''sea-prep.blob'' = None \<and>
       files (snd (main e opt w0)) ''out.js'' = None) \<and>
    (fst (main e opt w0) \<noteq> 0 \<longrightarrow>
       fst (main e opt w0) = 1 \<and>
       (\<exists>msg. last (logs (snd (main e opt w0))) =
          (LogError, ''An unexpected error occurred: '' @ msg)))"
proof -
  let ?exe = "getExecutableOutputPath plat"
  let ?S = "injectSEABlobIntoNodeExecutable e plat ?exe ''sea-prep.blob'' w"
  define w1 where "w1 =
       w\<lparr>logs := logs w @ [(LogInfo, ''Injecting SEA blob into '' @ ?exe)],
          calls := calls w @
            [PostjectInject ?exe ''NODE_SEA_BLOB'' blob
               \<lparr>sentinelFuse = ''NODE_SEA_FUSE_fce680ab2cc467b6e072b8b5df1996b2'',
                machoSegmentName = (if plat = ''macos'' then Some ''NODE_SEA'' else None)\<rparr>],
          files := (files w)(?exe \<mapsto> exe')\<rparr>"
  have eq: "?S = io_bind (unlinkSync e ''sea-prep.blob'') (\<lambda>_. unlinkSync e outputFile) w1"
    unfolding w1_def by (rule injectSEABlobIntoNodeExecutable_injected [OF assms])
  have w1 [simp]: "files w1 = (files w)(?exe \<mapsto> exe')"
    by (simp add: w1_def)
  have ne: "?exe \<noteq> ''sea-prep.blob''" "?exe \<noteq> ''out.js''"
    by (simp_all add: getExecutableOutputPath_eq)
  have 1: "files (snd ?S) ?exe = Some exe'"
    using assms(1) ne
    by (simp add: eq io_bind_def unlinkSync_eq outputFile_def split: option.splits)
  have 2: "fst ?S = Inl (Error (''EPERM: operation not permitted, unlink '' @ quoted ''sea-prep.blob'')) \<and>
       files (snd ?S) ''sea-prep.blob'' = Some blob \<and>
       files (snd ?S) ''out.js'' = files w ''out.js'' \<and>
       last (calls (snd ?S)) = Unlink ''sea-prep.blob''"
    if "denied e OpUnlink ''sea-prep.blob''"
    using assms(1) ne that
    by (simp add: eq io_bind_def unlinkSync_eq outputFile_def)
  have 3: "files (snd ?S) ''sea-prep.blob'' = None \<and>
       last (calls (snd ?S)) = Unlink ''out.js''"
    if "\<not> denied e OpUnlink ''sea-prep.blob''"
    using assms(1) ne that
    by (simp add: eq io_bind_def unlinkSync_eq outputFile_def split: option.splits)
  have 4: "fst ?S = Inl (Error (''ENOENT: no such file or directory, unlink '' @ quoted ''out.js''))"
    if "\<not> denied e OpUnlink ''sea-prep.blob''" "files w ''out.js'' = None"
    using assms(1) ne that
    by (simp add: eq io_bind_def unlinkSync_eq outputFile_def)
  have 5: "fst ?S = Inl (Error (''EPERM: operation not permitted, unlink '' @ quoted ''out.js'')) \<and>
          files (snd ?S) ''out.js'' = files w ''out.js''"
    if "\<not> denied e OpUnlink ''sea-prep.blob''"
      "files w ''out.js'' \<noteq> None \<and> denied e OpUnlink ''out.js''"
    using assms(1) ne that
    by (auto simp: eq io_bind_def unlinkSync_eq outputFile_def)
  have 6: "fst ?S = Inr () \<and> files (snd ?S) ''out.js'' = None"
    if "\<not> denied e OpUnlink ''sea-prep.blob''"
      "files w ''out.js'' \<noteq> None \<and> \<not> denied e OpUnlink ''out.js''"
    using assms(1) ne that
    by (auto simp: eq io_bind_def unlinkSync_eq outputFile_def)
  have 7: "files (snd (main e opt w0)) ''sea-prep.blob'' = None \<and>
       files (snd (main e opt w0)) ''out.js'' = None"
    if "fst (main e opt w0) = 0"
    using main_try_Inr_files [OF main_exit_0 [OF that]] by simp
  have 8: "fst (main e opt w0) = 1 \<and>
       (\<exists>msg. last (logs (snd (main e opt w0))) =
          (LogError, ''An unexpected error occurred: '' @ msg))"
    if "fst (main e opt w0) \<noteq> 0"
    using main_exit_status [of e opt w0] that by simp
  from 1 2 3 4 5 6 7 8 show ?thesis
    by (intro conjI impI) simp_all
qed

theorem cleanup_failure_aborts_witness:
  "files ready_world ''sea-prep.blob'' = Some ''BLOB'' \<and>
   \<not> denied locked_env OpRead ''sea-prep.blob'' \<and>
   injector locked_env (getExecutableOutputPath ''linux'') ''NODE_SEA_BLOB'' ''BLOB''
     \<lparr>sentinelFuse = ''NODE_SEA_FUSE_fce680ab2cc467b6e072b8b5df1996b2'',
      machoSegmentName = (if ''linux'' = ''macos'' then Some ''NODE_SEA'' else None)\<rparr>
     (files ready_world) = Inr ''NODE+NODE_SEA_BLOB:BLOB'' \<and>
   \<not> denied locked_env OpUnlink ''sea-prep.blob'' \<and>
   files ready_world ''out.js'' \<noteq> None \<and> denied locked_env OpUnlink ''out.js'' \<and>
   fst (injectSEABlobIntoNodeExecutable locked_env ''linux'' (getExecutableOutputPath ''linux'')
          ''sea-prep.blob'' ready_world) =
     Inl (Error (''EPERM: operation not permitted, unlink '' @ quoted ''out.js'')) \<and>
   files (snd (injectSEABlobIntoNodeExecutable locked_env ''linux''
          (getExecutableOutputPath ''linux'') ''sea-prep.blob'' ready_world))
     (getExecutableOutputPath ''linux'') = Some ''NODE+NODE_SEA_BLOB:BLOB'' \<and>
   fst (main locked_env demo_opts demo_world) \<noteq> 0 \<and>
   fst (main locked_env demo_opts demo_world) = 1"
proof -
  have h: "files ready_world ''sea-prep.blob'' = Some ''BLOB''"
    "\<not> denied locked_env OpRead ''sea-prep.blob''"
    "injector locked_env (getExecutableOutputPath ''linux'') ''NODE_SEA_BLOB'' ''BLOB''
     \<lparr>sentinelFuse = ''NODE_SEA_FUSE_fce680ab2cc467b6e072b8b5df1996b2'',
      machoSegmentName = (if ''linux'' = ''macos'' then Some ''NODE_SEA'' else None)\<rparr>
     (files ready_world) = Inr ''NODE+NODE_SEA_BLOB:BLOB''"
    by (simp_all add: ready_world_def locked_env_def demo_env_def getExecutableOutputPath_eq)
  have d: "\<not> denied locked_env OpUnlink ''sea-prep.blob''"
    "files ready_world ''out.js'' \<noteq> None" "denied locked_env OpUnlink ''out.js''"
    by (simp_all add: ready_world_def locked_env_def)
  have m: "fst (main locked_env demo_opts demo_world) \<noteq> 0"
    by (simp add: run_defs locked_env_def demo_env_def demo_opts_def demo_world_def)
  from cleanup_failure_aborts [OF h, of demo_opts demo_world] h d m show ?thesis
    by simp
qed

text \<open>
  C1, where a failed deletion is fatal although the specification says it is only logged:
  on a host that refuses to delete \<open>out.js\<close>, the run injects the
  blob into \<open>dist/out\<close>, fails to delete \<open>out.js\<close> as its last call, and exits with
  status 1 after logging the error as unexpected.
\<close>

theorem cleanup_failure_counterexample:
  "files (snd (sea_builder locked_env (demo_cli ''linux'') demo_world)) ''dist/out'' =
     Some ''NODE+NODE_SEA_BLOB:blob:obf:bundle:console.log(1)'' \<and>
   last (calls (snd (sea_builder locked_env (demo_cli ''linux'') demo_world))) = Unlink ''out.js'' \<and>
   files (snd (sea_builder locked_env (demo_cli ''linux'') demo_world)) ''out.js'' =
     Some ''obf:bundle:console.log(1)'' \<and>
   fst (sea_builder locked_env (demo_cli ''linux'') demo_world) = 1 \<and>
   last (logs (snd (sea_builder locked_env (demo_cli ''linux'') demo_world))) =
     (LogError, ''An unexpected error occurred: EPERM: operation not permitted, unlink '' @ quoted ''out.js'')"
  by (simp add: run_defs locked_env_def demo_env_def demo_cli_def demo_world_def)

subsection \<open>The options that reach the stages\<close>







subsection \<open>Obfuscation before blob generation\<close>












end
